theory Spec2Isabelle
  imports Main
begin

section \<open>Data model of package auth\<close>

text \<open>
  \<open>email.Address\<close>, \<open>auth.Argon2Hash\<close>, \<open>auth.Token\<close> and \<open>auth.Password\<close> are
  opaque values to the code verified here; they are modelled as strings.
  \<open>time.Time\<close> is a number, the zero \<open>time.Time{}\<close> being \<open>0\<close>.
\<close>

type_synonym Address = string
type_synonym Argon2Hash = string
type_synonym Token = string
type_synonym Password = string
type_synonym Time = nat

text \<open>
  \<open>auth.TokenPurpose\<close> is a string type with named constants; the source under
  verification uses \<open>TokenPurposeActivate\<close>, the tests also assign the literal
  \<open>"other"\<close>.
\<close>

datatype TokenPurpose =
    TokenPurposeActivate
  | TokenPurposePasswordReset
  | TokenPurposeLiteral string

text \<open>\<open>auth.User\<close>. The Go fields \<open>ID\<close>, \<open>Email\<close>, ... carry the prefix \<open>u\<close>.\<close>

record User =
  uID :: int
  uEmail :: Address
  uPasswordHash :: Argon2Hash
  uIsActive :: bool
  uCreatedAt :: Time
  uUpdatedAt :: Time

text \<open>
  \<open>auth.EmailToken\<close>, fields prefixed with \<open>t\<close>. \<open>ConsumedAt\<close> is a
  \<open>*time.Time\<close>: \<open>None\<close> is \<open>nil\<close>.
\<close>

record EmailToken =
  tID :: int
  tTokenHash :: Argon2Hash
  tUserID :: int
  tEmail :: Address
  tPurpose :: TokenPurpose
  tCreatedAt :: Time
  tConsumedAt :: "Time option"

record Credentials =
  cEmail :: Address
  cPassword :: Password

text \<open>
  \<open>auth.UserFilter\<close>. A Go slice is \<open>nil\<close> (\<open>None\<close>) or a possibly empty slice
  (\<open>Some xs\<close>); \<open>IsActive\<close> is a \<open>*bool\<close>.
\<close>

record UserFilter =
  fIDs :: "int list option"
  fEmails :: "Address list option"
  fIsActive :: "bool option"

section \<open>Errors\<close>

text \<open>
  The sentinel errors of packages \<open>auth\<close> and \<open>errorz\<close>, any other error,
  an error wrapped with \<open>%w\<close>, and \<open>errors.Join\<close> of two non-nil errors.
\<close>

datatype error =
    ErrDuplicateAccount
  | ErrNotFound
  | ErrConstraintViolated
  | ErrTxBadState
  | ErrOther string
  | Wrap string error
  | Join error error

text \<open>
  \<open>errors.Is(err, target)\<close>: \<open>err\<close> is the target, or unwraps to an error that
  is (for a joined error: one of the joined errors is).
\<close>

fun errors_Is :: "error \<Rightarrow> error \<Rightarrow> bool" where
  "errors_Is (Wrap msg e) target = (Wrap msg e = target \<or> errors_Is e target)"
| "errors_Is (Join a b) target = (Join a b = target \<or> errors_Is a target \<or> errors_Is b target)"
| "errors_Is e target = (e = target)"

section \<open>The Store and Tx interfaces\<close>

text \<open>
  \<open>auth.Tx\<close> is an interface; an implementation is a record of its methods,
  each a function on the implementation's state \<open>'s\<close>. A method that takes a
  pointer (\<open>CreateUser(u *User) error\<close>) returns the record it leaves behind
  the pointer along with its error (\<open>None\<close> is \<open>nil\<close>). A method returning
  \<open>(User, error)\<close> returns \<open>Inl\<close> of the error or \<open>Inr\<close> of the value.
\<close>

record 's Tx =
  Commit :: "'s \<Rightarrow> error option \<times> 's"
  Rollback :: "'s \<Rightarrow> error option \<times> 's"
  CreateUser :: "User \<Rightarrow> 's \<Rightarrow> (error option \<times> User) \<times> 's"
  UpdateUser :: "User \<Rightarrow> 's \<Rightarrow> (error option \<times> User) \<times> 's"
  FindUserByEmail :: "Address \<Rightarrow> 's \<Rightarrow> (error + User) \<times> 's"
  CreateEmailToken :: "EmailToken \<Rightarrow> 's \<Rightarrow> (error option \<times> EmailToken) \<times> 's"
  UpdateEmailToken :: "EmailToken \<Rightarrow> 's \<Rightarrow> (error option \<times> EmailToken) \<times> 's"
  FindEmailTokenByID :: "int \<Rightarrow> 's \<Rightarrow> (error + EmailToken) \<times> 's"

text \<open>\<open>auth.Store\<close>: \<open>BeginTx(ctx) (Tx, error)\<close>.\<close>

record 's Store =
  BeginTx :: "'s \<Rightarrow> (error + 's Tx) \<times> 's"

section \<open>The service (package auth, service file)\<close>

text \<open>
  The arguments of \<open>emailSvc.Send(ctx, name, to, data)\<close> as \<open>startActivation\<close>
  passes them: the template name, the recipient, and the anonymous struct
  \<open>{ID int; Token Token}\<close>.
\<close>

record Mail =
  mName :: string
  mTo :: Address
  mID :: int
  mToken :: Token

text \<open>
  Every call the service makes on its collaborators is recorded, in order, so
  that "is called", "is not called" and "before" can be stated. The calls
  with arguments are recorded with them, \<open>Commit\<close> and \<open>Rollback\<close> with the
  error they returned.
\<close>

datatype call =
    CallBeginTx
  | CallCommit "error option"
  | CallRollback "error option"
  | CallFindUserByEmail Address
  | CallCreateUser User
  | CallCreateEmailToken EmailToken
  | CallSend Mail

text \<open>
  What the service acts on: the state \<open>st\<close> of the store and its
  transaction, the record \<open>calls\<close> of the calls made so far, the errors
  \<open>handled\<close> that were passed to \<open>errHandler\<close>, and the goroutines that
  were started with \<open>go\<close> and have not run yet (\<open>pending\<close>, one captured
  \<open>user\<close> each; its length is the counter of the wait group \<open>wg\<close>).
\<close>

record 's world =
  st :: 's
  calls :: "call list"
  handled :: "error list"
  pending :: "User list"

text \<open>
  The functions of package auth that \<open>RegisterAccount\<close> and \<open>startActivation\<close>
  call and whose bodies are not part of the verified sources are parameters:
  \<open>Password.Hash()\<close>, \<open>GenerateToken()\<close> (the outcome of its random draw)
  and \<open>Token.Hash()\<close>.
\<close>

record Prims =
  Password_Hash :: "Password \<Rightarrow> error + Argon2Hash"
  GenerateToken :: "error + Token"
  Token_Hash :: "Token \<Rightarrow> error + Argon2Hash"

text \<open>
  \<open>auth.Service\<close>: the store and the outcome of \<open>emailSvc.Send\<close>. The
  context and \<open>workTimeout\<close> are not modelled: an expired context shows as
  an error returned by the store or by \<open>Send\<close>, and those are arbitrary here.
\<close>

record 's Service =
  store :: "'s Store"
  emailSvc_Send :: "Mail \<Rightarrow> error option"

text \<open>The calls recorded since an earlier moment \<open>w\<close>.\<close>

definition calls_since :: "'s world \<Rightarrow> 's world \<Rightarrow> call list" where
  "calls_since w w' = drop (length (calls w)) (calls w')"

text \<open>The method calls on a \<open>Tx\<close>, each recorded in \<open>calls\<close>.\<close>

definition tx_Commit :: "'s Tx \<Rightarrow> 's world \<Rightarrow> error option \<times> 's world" where
  "tx_Commit tx w =
     (case Commit tx (st w) of
        (err, s') \<Rightarrow> (err, w\<lparr>st := s', calls := calls w @ [CallCommit err]\<rparr>))"

definition tx_Rollback :: "'s Tx \<Rightarrow> 's world \<Rightarrow> error option \<times> 's world" where
  "tx_Rollback tx w =
     (case Rollback tx (st w) of
        (err, s') \<Rightarrow> (err, w\<lparr>st := s', calls := calls w @ [CallRollback err]\<rparr>))"

definition tx_FindUserByEmail :: "'s Tx \<Rightarrow> Address \<Rightarrow> 's world \<Rightarrow> (error + User) \<times> 's world" where
  "tx_FindUserByEmail tx v w =
     (case FindUserByEmail tx v (st w) of
        (r, s') \<Rightarrow> (r, w\<lparr>st := s', calls := calls w @ [CallFindUserByEmail v]\<rparr>))"

definition tx_CreateUser :: "'s Tx \<Rightarrow> User \<Rightarrow> 's world \<Rightarrow> (error option \<times> User) \<times> 's world" where
  "tx_CreateUser tx u w =
     (case CreateUser tx u (st w) of
        (r, s') \<Rightarrow> (r, w\<lparr>st := s', calls := calls w @ [CallCreateUser u]\<rparr>))"

definition tx_CreateEmailToken ::
  "'s Tx \<Rightarrow> EmailToken \<Rightarrow> 's world \<Rightarrow> (error option \<times> EmailToken) \<times> 's world" where
  "tx_CreateEmailToken tx t w =
     (case CreateEmailToken tx t (st w) of
        (r, s') \<Rightarrow> (r, w\<lparr>st := s', calls := calls w @ [CallCreateEmailToken t]\<rparr>))"

definition store_BeginTx :: "'s Store \<Rightarrow> 's world \<Rightarrow> (error + 's Tx) \<times> 's world" where
  "store_BeginTx s w =
     (case BeginTx s (st w) of
        (r, s') \<Rightarrow> (r, w\<lparr>st := s', calls := calls w @ [CallBeginTx]\<rparr>))"

text \<open>
  \<open>Service.inTx(ctx, f)\<close>. The function \<open>f\<close> is a closure: besides the
  transaction it reads and writes the variables \<open>'c\<close> it captured, which are
  passed in and returned with the result.
\<close>

definition inTx ::
  "'s Service \<Rightarrow> ('s Tx \<Rightarrow> 'c \<Rightarrow> 's world \<Rightarrow> error option \<times> 'c \<times> 's world) \<Rightarrow>
   'c \<Rightarrow> 's world \<Rightarrow> error option \<times> 'c \<times> 's world" where
  "inTx s f c w =
     (case store_BeginTx (store s) w of
        (Inl err, w1) \<Rightarrow> (Some err, c, w1)
      | (Inr tx, w1) \<Rightarrow>
          (case f tx c w1 of
             (Some err, c2, w2) \<Rightarrow>
               (case tx_Rollback tx w2 of
                  (Some rBackErr, w3) \<Rightarrow> (Some (Join err rBackErr), c2, w3)
                | (None, w3) \<Rightarrow> (Some err, c2, w3))
           | (None, c2, w2) \<Rightarrow>
               (case tx_Commit tx w2 of
                  (Some err, w3) \<Rightarrow> (Some err, c2, w3)
                | (None, w3) \<Rightarrow> (None, c2, w3))))"

text \<open>
  The closure that \<open>startActivation\<close> passes to \<open>inTx\<close>. It captures
  \<open>user\<close> and \<open>emailToken\<close>; \<open>CreateUser(&user)\<close> and
  \<open>CreateEmailToken(&emailToken)\<close> write through the pointers.
\<close>

definition startActivation_txFunc ::
  "'s Tx \<Rightarrow> User \<times> EmailToken \<Rightarrow> 's world \<Rightarrow> error option \<times> (User \<times> EmailToken) \<times> 's world" where
  "startActivation_txFunc tx c w =
     (case c of (user, emailToken) \<Rightarrow>
        (case tx_FindUserByEmail tx (uEmail user) w of
           (Inr found, w1) \<Rightarrow> (Some ErrDuplicateAccount, (user, emailToken), w1)
         | (Inl txErr, w1) \<Rightarrow>
             if \<not> errors_Is txErr ErrNotFound then (Some txErr, (user, emailToken), w1)
             else
               (case tx_CreateUser tx user w1 of
                  ((Some txErr, user2), w2) \<Rightarrow> (Some txErr, (user2, emailToken), w2)
                | ((None, user2), w2) \<Rightarrow>
                    (case tx_CreateEmailToken tx (emailToken\<lparr>tUserID := uID user2\<rparr>) w2 of
                       ((Some txErr, emailToken2), w3) \<Rightarrow> (Some txErr, (user2, emailToken2), w3)
                     | ((None, emailToken2), w3) \<Rightarrow> (None, (user2, emailToken2), w3)))))"

text \<open>The \<open>EmailToken\<close> literal that \<open>startActivation\<close> builds.\<close>

definition newActivationToken :: "Argon2Hash \<Rightarrow> User \<Rightarrow> EmailToken" where
  "newActivationToken tokenHash user =
     \<lparr>tID = 0, tTokenHash = tokenHash, tUserID = 0, tEmail = uEmail user,
      tPurpose = TokenPurposeActivate, tCreatedAt = 0, tConsumedAt = None\<rparr>"

text \<open>\<open>Service.startActivation(ctx, user)\<close>.\<close>

definition startActivation :: "Prims \<Rightarrow> 's Service \<Rightarrow> User \<Rightarrow> 's world \<Rightarrow> error option \<times> 's world" where
  "startActivation P s user w =
     (case GenerateToken P of
        Inl err \<Rightarrow> (Some err, w)
      | Inr token \<Rightarrow>
          (case Token_Hash P token of
             Inl err \<Rightarrow> (Some err, w)
           | Inr tokenHash \<Rightarrow>
               (case inTx s startActivation_txFunc (user, newActivationToken tokenHash user) w of
                  (Some err, c, w1) \<Rightarrow> (Some err, w1)
                | (None, (user2, emailToken2), w1) \<Rightarrow>
                    (let mail = \<lparr>mName = ''account-activation'', mTo = uEmail user2,
                                  mID = tID emailToken2, mToken = token\<rparr>;
                         w2 = w1\<lparr>calls := calls w1 @ [CallSend mail]\<rparr>
                     in (case emailSvc_Send s mail of
                           Some err \<Rightarrow> (Some err, w2)
                         | None \<Rightarrow> (None, w2))))))"

text \<open>
  \<open>Service.RegisterAccount(ctx, c)\<close>. The \<open>go func() { ... }()\<close> statement
  starts a goroutine and does not wait for it: the call returns \<open>nil\<close> with
  the goroutine pending.
\<close>

definition RegisterAccount :: "Prims \<Rightarrow> 's Service \<Rightarrow> Credentials \<Rightarrow> 's world \<Rightarrow> error option \<times> 's world" where
  "RegisterAccount P s c w =
     (case Password_Hash P (cPassword c) of
        Inl err \<Rightarrow> (Some err, w)
      | Inr pwdHash \<Rightarrow>
          (let user = \<lparr>uID = 0, uEmail = cEmail c, uPasswordHash = pwdHash, uIsActive = False,
                        uCreatedAt = 0, uUpdatedAt = 0\<rparr>
           in (None, w\<lparr>pending := pending w @ [user]\<rparr>)))"

text \<open>
  The body of the goroutine for the captured \<open>user\<close>: it returns nothing;
  an error of \<open>startActivation\<close> goes to \<open>errHandler\<close>.
\<close>

definition RegisterAccount_goroutine :: "Prims \<Rightarrow> 's Service \<Rightarrow> User \<Rightarrow> 's world \<Rightarrow> 's world" where
  "RegisterAccount_goroutine P s user w =
     (case startActivation P s user w of
        (Some err, w1) \<Rightarrow> w1\<lparr>handled := handled w1 @ [err]\<rparr>
      | (None, w1) \<Rightarrow> w1)"

text \<open>
  The scheduler runs one pending goroutine to its end (\<open>wg.Done()\<close> removes
  it). Goroutines are run one at a time; their interleaving is not modelled.
\<close>

definition run_goroutine :: "Prims \<Rightarrow> 's Service \<Rightarrow> 's world \<Rightarrow> 's world" where
  "run_goroutine P s w =
     (case pending w of
        [] \<Rightarrow> w
      | user # rest \<Rightarrow> RegisterAccount_goroutine P s user (w\<lparr>pending := rest\<rparr>))"

section \<open>The store of package auth/db\<close>

text \<open>
  The state of a store with its open transaction: the users and email tokens
  the transaction sees, in creation order; whether the transaction is in its
  failed state; how often the clock \<open>nowFunc\<close> given to \<open>db.New\<close> has been
  read; and the users and tokens last committed.
\<close>

record db_state =
  users :: "User list"
  tokens :: "EmailToken list"
  failed :: bool
  ticks :: nat
  committed_users :: "User list"
  committed_tokens :: "EmailToken list"

text \<open>
  Modelled from the spec: how the store assigns ids is missing (package auth/db
  is not among the sources). The spec says "store-assigned positive integer";
  the tests see 1, 2, 3 in creation order. The next id is one more than the
  largest id in use.
\<close>

definition next_id :: "int list \<Rightarrow> int" where
  "next_id ids = fold max ids 0 + 1"

text \<open>
  Modelled from the spec: the body of \<open>Tx.CreateUser\<close> of package auth/db is
  missing. Spec 4.3: "reject a non-zero id (ConstraintViolated); enforce
  referenced invariants (email uniqueness ...) via the same error kind; on
  success, assign id/timestamps into the passed-in record." The clock is read
  once (\<open>Test_Tx_CreateUser\<close>: both timestamps are \<open>now(t, 0)\<close>).
\<close>

definition db_CreateUser :: "(nat \<Rightarrow> Time) \<Rightarrow> User \<Rightarrow> db_state \<Rightarrow> (error option \<times> User) \<times> db_state" where
  "db_CreateUser nowFunc u s =
     (if uID u \<noteq> 0 then ((Some ErrConstraintViolated, u), s)
      else if \<exists>x \<in> set (users s). uEmail x = uEmail u then ((Some ErrConstraintViolated, u), s)
      else
        (let now = nowFunc (ticks s);
             u' = u\<lparr>uID := next_id (map uID (users s)), uCreatedAt := now, uUpdatedAt := now\<rparr>
         in ((None, u'), s\<lparr>users := users s @ [u'], ticks := Suc (ticks s)\<rparr>)))"

text \<open>
  Modelled from the spec: the body of \<open>Tx.UpdateUser\<close> of package auth/db is
  missing. Spec 4.3: "fail with NotFound if the id does not exist; fail with
  ConstraintViolated if a mutation violates uniqueness ...; bump
  updatedAt/leave createdAt untouched." The fields that can be modified are
  \<open>Email\<close>, \<open>PasswordHash\<close> and \<open>IsActive\<close> (\<open>Test_Tx_UpdateUser\<close>), and the
  new \<open>UpdatedAt\<close> is written into the passed-in record.
\<close>

definition db_UpdateUser :: "(nat \<Rightarrow> Time) \<Rightarrow> User \<Rightarrow> db_state \<Rightarrow> (error option \<times> User) \<times> db_state" where
  "db_UpdateUser nowFunc u s =
     (case find (\<lambda>x. uID x = uID u) (users s) of
        None \<Rightarrow> ((Some ErrNotFound, u), s)
      | Some old \<Rightarrow>
          if \<exists>x \<in> set (users s). uID x \<noteq> uID u \<and> uEmail x = uEmail u
          then ((Some ErrConstraintViolated, u), s)
          else
            (let now = nowFunc (ticks s);
                 stored = old\<lparr>uEmail := uEmail u, uPasswordHash := uPasswordHash u,
                              uIsActive := uIsActive u, uUpdatedAt := now\<rparr>
             in ((None, u\<lparr>uUpdatedAt := now\<rparr>),
                 s\<lparr>users := map (\<lambda>x. if uID x = uID u then stored else x) (users s),
                   ticks := Suc (ticks s)\<rparr>)))"

text \<open>
  Modelled from the spec: the body of \<open>Tx.FindUserByEmail\<close> of package auth/db
  is missing. Spec 4.3: "exact match ... on the encrypted email column;
  NotFound if absent."
\<close>

definition db_FindUserByEmail :: "Address \<Rightarrow> db_state \<Rightarrow> (error + User) \<times> db_state" where
  "db_FindUserByEmail v s =
     (case find (\<lambda>x. uEmail x = v) (users s) of
        None \<Rightarrow> (Inl ErrNotFound, s)
      | Some u \<Rightarrow> (Inr u, s))"

text \<open>
  Modelled from the spec: the body of \<open>Tx.FindUsers\<close> of package auth/db is
  missing. Spec 3: "a query filter (sets of ids, emails, an optional
  active-flag) combined with AND semantics, each sub-filter empty meaning no
  constraint on that dimension"; spec 4.3: "ordered by creation order". The
  case "ok, all users, empty slices" of \<open>Test_Tx_FindUser\<close> passes empty,
  non-nil \<open>IDs\<close> and \<open>Emails\<close> and wants every user: a slice constrains its
  dimension when it has an element, whether it is nil or not.
\<close>

definition filter_dimension :: "'a list option \<Rightarrow> 'a \<Rightarrow> bool" where
  "filter_dimension dim v =
     (case dim of
        None \<Rightarrow> True
      | Some xs \<Rightarrow> (if xs = [] then True else v \<in> set xs))"

definition filter_matches :: "UserFilter \<Rightarrow> User \<Rightarrow> bool" where
  "filter_matches f u =
     (filter_dimension (fIDs f) (uID u) \<and>
      filter_dimension (fEmails f) (uEmail u) \<and>
      (case fIsActive f of None \<Rightarrow> True | Some b \<Rightarrow> uIsActive u = b))"

definition db_FindUsers :: "UserFilter \<Rightarrow> db_state \<Rightarrow> (error + User list) \<times> db_state" where
  "db_FindUsers f s = (Inr (filter (filter_matches f) (users s)), s)"

text \<open>
  Modelled from the spec: the body of \<open>Tx.CreateEmailToken\<close> of package
  auth/db is missing. Spec 4.3: "reject a non-zero id (ConstraintViolated);
  enforce referenced invariants (... email-token's userId must exist) via the
  same error kind; on success, assign id/timestamps into the passed-in
  record."
\<close>

definition db_CreateEmailToken ::
  "(nat \<Rightarrow> Time) \<Rightarrow> EmailToken \<Rightarrow> db_state \<Rightarrow> (error option \<times> EmailToken) \<times> db_state" where
  "db_CreateEmailToken nowFunc t s =
     (if tID t \<noteq> 0 then ((Some ErrConstraintViolated, t), s)
      else if \<not> (\<exists>x \<in> set (users s). uID x = tUserID t) then ((Some ErrConstraintViolated, t), s)
      else
        (let now = nowFunc (ticks s);
             t' = t\<lparr>tID := next_id (map tID (tokens s)), tCreatedAt := now\<rparr>
         in ((None, t'), s\<lparr>tokens := tokens s @ [t'], ticks := Suc (ticks s)\<rparr>)))"

text \<open>
  Modelled from the spec: the body of \<open>Tx.UpdateEmailToken\<close> of package
  auth/db is missing. Spec 4.3: "fail with NotFound if the id does not exist;
  fail with ConstraintViolated if a mutation ... touches an immutable field
  (for EmailToken: tokenHash, userId, email, purpose)"; only \<open>consumedAt\<close>
  may change. The tests run the immutable-field cases under \<open>inTxBadState\<close>:
  that rejection puts the transaction into its failed state.
\<close>

definition db_UpdateEmailToken :: "EmailToken \<Rightarrow> db_state \<Rightarrow> (error option \<times> EmailToken) \<times> db_state" where
  "db_UpdateEmailToken t s =
     (case find (\<lambda>x. tID x = tID t) (tokens s) of
        None \<Rightarrow> ((Some ErrNotFound, t), s)
      | Some old \<Rightarrow>
          if tTokenHash t \<noteq> tTokenHash old \<or> tUserID t \<noteq> tUserID old \<or>
             tEmail t \<noteq> tEmail old \<or> tPurpose t \<noteq> tPurpose old
          then ((Some ErrConstraintViolated, t), s\<lparr>failed := True\<rparr>)
          else
            ((None, t),
             s\<lparr>tokens := map (\<lambda>x. if tID x = tID t then old\<lparr>tConsumedAt := tConsumedAt t\<rparr> else x)
                              (tokens s)\<rparr>))"

text \<open>
  Modelled from the spec: the body of \<open>Tx.FindEmailTokenByID\<close> of package
  auth/db is missing. Spec 4.3: "NotFound if absent."
\<close>

definition db_FindEmailTokenByID :: "int \<Rightarrow> db_state \<Rightarrow> (error + EmailToken) \<times> db_state" where
  "db_FindEmailTokenByID i s =
     (case find (\<lambda>x. tID x = i) (tokens s) of
        None \<Rightarrow> (Inl ErrNotFound, s)
      | Some t \<Rightarrow> (Inr t, s))"

text \<open>
  Modelled from the spec: the bodies of \<open>Tx.Commit\<close>, \<open>Tx.Rollback\<close> and
  \<open>Store.BeginTx\<close> of package auth/db are missing. Spec 4.3: a Commit "on a
  failed transaction must itself fail (reported as a distinct
  TransactionBadState kind)"; spec 2: the service "commits or rolls back
  atomically".
\<close>

definition db_Commit :: "db_state \<Rightarrow> error option \<times> db_state" where
  "db_Commit s =
     (if failed s then (Some ErrTxBadState, s)
      else (None, s\<lparr>committed_users := users s, committed_tokens := tokens s\<rparr>))"

definition db_Rollback :: "db_state \<Rightarrow> error option \<times> db_state" where
  "db_Rollback s = (None, s\<lparr>users := committed_users s, tokens := committed_tokens s\<rparr>)"

definition db_Tx :: "(nat \<Rightarrow> Time) \<Rightarrow> db_state Tx" where
  "db_Tx nowFunc =
     \<lparr>Commit = db_Commit, Rollback = db_Rollback,
      CreateUser = db_CreateUser nowFunc, UpdateUser = db_UpdateUser nowFunc,
      FindUserByEmail = db_FindUserByEmail,
      CreateEmailToken = db_CreateEmailToken nowFunc, UpdateEmailToken = db_UpdateEmailToken,
      FindEmailTokenByID = db_FindEmailTokenByID\<rparr>"

definition db_BeginTx :: "(nat \<Rightarrow> Time) \<Rightarrow> db_state \<Rightarrow> (error + db_state Tx) \<times> db_state" where
  "db_BeginTx nowFunc s =
     (Inr (db_Tx nowFunc),
      s\<lparr>users := committed_users s, tokens := committed_tokens s, failed := False\<rparr>)"

text \<open>\<open>db.New(testDB, nowFunc)\<close>: the store, and the state of an empty database.\<close>

definition db_New :: "(nat \<Rightarrow> Time) \<Rightarrow> db_state Store" where
  "db_New nowFunc = \<lparr>BeginTx = db_BeginTx nowFunc\<rparr>"

definition db_empty :: db_state where
  "db_empty = \<lparr>users = [], tokens = [], failed = False, ticks = 0,
                committed_users = [], committed_tokens = []\<rparr>"

text \<open>
  The operations of a transaction as data, so that "every sequence of
  operations" can be stated. Each returns its error, if any.
\<close>

datatype db_op =
    OpCreateUser User
  | OpUpdateUser User
  | OpFindUserByEmail Address
  | OpFindUsers UserFilter
  | OpCreateEmailToken EmailToken
  | OpUpdateEmailToken EmailToken
  | OpFindEmailTokenByID int

fun db_apply :: "(nat \<Rightarrow> Time) \<Rightarrow> db_op \<Rightarrow> db_state \<Rightarrow> error option \<times> db_state" where
  "db_apply nowFunc (OpCreateUser u) s = (case db_CreateUser nowFunc u s of ((e, r), s') \<Rightarrow> (e, s'))"
| "db_apply nowFunc (OpUpdateUser u) s = (case db_UpdateUser nowFunc u s of ((e, r), s') \<Rightarrow> (e, s'))"
| "db_apply nowFunc (OpFindUserByEmail v) s =
     (case db_FindUserByEmail v s of (Inl e, s') \<Rightarrow> (Some e, s') | (Inr r, s') \<Rightarrow> (None, s'))"
| "db_apply nowFunc (OpFindUsers f) s =
     (case db_FindUsers f s of (Inl e, s') \<Rightarrow> (Some e, s') | (Inr r, s') \<Rightarrow> (None, s'))"
| "db_apply nowFunc (OpCreateEmailToken t) s =
     (case db_CreateEmailToken nowFunc t s of ((e, r), s') \<Rightarrow> (e, s'))"
| "db_apply nowFunc (OpUpdateEmailToken t) s = (case db_UpdateEmailToken t s of ((e, r), s') \<Rightarrow> (e, s'))"
| "db_apply nowFunc (OpFindEmailTokenByID i) s =
     (case db_FindEmailTokenByID i s of (Inl e, s') \<Rightarrow> (Some e, s') | (Inr r, s') \<Rightarrow> (None, s'))"

text \<open>
  A test body: the operations in order, whatever they return (the tests go
  on after an error they expect). The result is the errors and the state.
\<close>

fun db_run :: "(nat \<Rightarrow> Time) \<Rightarrow> db_op list \<Rightarrow> db_state \<Rightarrow> error option list \<times> db_state" where
  "db_run nowFunc [] s = ([], s)"
| "db_run nowFunc (x # xs) s =
     (case db_apply nowFunc x s of
        (e, s') \<Rightarrow> (case db_run nowFunc xs s' of (es, s'') \<Rightarrow> (e # es, s'')))"

text \<open>
  The values of the tests: \<open>newUser\<close>, \<open>newEmailToken\<close> (their Argon2 hash
  strings abbreviated) and the clock \<open>now(t, i)\<close>, in seconds.
\<close>

definition newUser :: User where
  "newUser = \<lparr>uID = 0, uEmail = ''alice@example.com'', uPasswordHash = ''hash1'',
              uIsActive = False, uCreatedAt = 0, uUpdatedAt = 0\<rparr>"

definition newEmailToken :: EmailToken where
  "newEmailToken = \<lparr>tID = 0, tTokenHash = ''hash2'', tUserID = 1, tEmail = ''alice@example.com'',
                    tPurpose = TokenPurposeActivate, tCreatedAt = 0, tConsumedAt = None\<rparr>"

definition test_now :: "nat \<Rightarrow> Time" where
  "test_now i = 1609459200 + i"

text \<open>
  A fresh transaction, as every test begins (\<open>storeForTest\<close>, then
  \<open>BeginTx\<close>), and the three users of \<open>setupUsers\<close> in \<open>Test_Tx_FindUser\<close>
  created in it.
\<close>

definition test_tx :: db_state where
  "test_tx = snd (db_BeginTx test_now db_empty)"

definition setupUsers_ops :: "db_op list" where
  "setupUsers_ops =
     [OpCreateUser newUser,
      OpCreateUser (newUser\<lparr>uEmail := ''jacob@example.com'', uIsActive := True\<rparr>),
      OpCreateUser (newUser\<lparr>uEmail := ''eva@example.com''\<rparr>)]"

definition setupUsers :: db_state where
  "setupUsers = snd (db_run test_now setupUsers_ops test_tx)"

text \<open>
  The \<open>setup\<close> of \<open>Test_Tx_UpdateUser\<close> (one user) and of
  \<open>Test_Tx_UpdateEmailToken\<close> (one user and one email token), and the body of
  the test "fail, immutable field Email" up to its \<open>UpdateEmailToken\<close>.
\<close>

definition setupUser :: db_state where
  "setupUser = snd (db_run test_now [OpCreateUser newUser] test_tx)"

definition setupToken :: db_state where
  "setupToken = snd (db_run test_now [OpCreateUser newUser, OpCreateEmailToken newEmailToken] test_tx)"

definition immutable_ops :: "db_op list" where
  "immutable_ops =
     [OpCreateUser newUser, OpCreateEmailToken newEmailToken,
      OpCreateUser (newUser\<lparr>uEmail := ''jacob@example.com''\<rparr>),
      OpUpdateEmailToken (newEmailToken\<lparr>tID := 1, tCreatedAt := 1609459201,
                                        tEmail := ''jacob@example.com''\<rparr>)]"

text \<open>Two email tokens with the same id and the same immutable fields.\<close>

definition same_immutable :: "EmailToken \<Rightarrow> EmailToken \<Rightarrow> bool" where
  "same_immutable a b =
     (tID a = tID b \<and> tTokenHash a = tTokenHash b \<and> tUserID a = tUserID b \<and>
      tEmail a = tEmail b \<and> tPurpose a = tPurpose b)"

text \<open>
  A service over this store for the examples: the primitives succeed with
  fixed values, \<open>Send\<close> returns what it is told to. \<open>example_world us\<close> is a
  world whose database holds the committed users \<open>us\<close>.
\<close>

definition example_Prims :: Prims where
  "example_Prims =
     \<lparr>Password_Hash = (\<lambda>p. if p = [] then Inl (ErrOther ''empty password'') else Inr ''hash1''),
      GenerateToken = Inr ''raw-token'',
      Token_Hash = (\<lambda>t. Inr ''hash2'')\<rparr>"

definition example_Service :: "error option \<Rightarrow> db_state Service" where
  "example_Service sendResult = \<lparr>store = db_New test_now, emailSvc_Send = (\<lambda>m. sendResult)\<rparr>"

definition example_world :: "User list \<Rightarrow> db_state world" where
  "example_world us =
     \<lparr>st = db_empty\<lparr>committed_users := us\<rparr>, calls = [], handled = [], pending = []\<rparr>"

definition alice :: "bool \<Rightarrow> User" where
  "alice active = newUser\<lparr>uID := 1, uIsActive := active, uCreatedAt := 1609459100,
                          uUpdatedAt := 1609459100\<rparr>"

section \<open>Configuration parsing (cmd server, config)\<close>

text \<open>
  Go strings are byte sequences and \<open>len\<close> counts bytes, so a Go string is a
  \<open>string\<close> (a \<open>char list\<close>) and \<open>len(v)\<close> is \<open>length v\<close>.
  \<open>strings.Split(v, sep)\<close> for a one-byte separator cuts at every occurrence of
  the separator and returns one part more than there are separators; the empty
  string gives the single part \<open>""\<close>.
\<close>

fun strings_Split :: "string \<Rightarrow> char \<Rightarrow> string list" where
  "strings_Split [] sep = [[]]"
| "strings_Split (c # cs) sep =
     (if c = sep then [] # strings_Split cs sep
      else (case strings_Split cs sep of
              [] \<Rightarrow> [[c]]
            | p # ps \<Rightarrow> (c # p) # ps))"

text \<open>
  The two errors of \<open>confSliceOf\<close>:
  \<open>fmt.Errorf("failed to parse element %d: %w", i, err)\<close> and
  \<open>fmt.Errorf("slice length %d not in range [%d, %d] (inclusive)", len(v), minLen, maxLen)\<close>.
\<close>

datatype 'e conf_error =
    FailedToParseElement nat 'e
  | SliceLengthNotInRange int int int

text \<open>
  The \<open>for i, elem := range strings.Split(v, ",")\<close> loop of \<open>confSliceOf\<close>.
  The target slice is written through a pointer, so what was appended before a
  failing element stays appended: the loop returns the target together with
  the error.
\<close>

fun confSliceOf_loop ::
  "(string \<Rightarrow> 'e + 'a) \<Rightarrow> nat \<Rightarrow> string list \<Rightarrow> 'a list \<Rightarrow> 'e conf_error option \<times> 'a list" where
  "confSliceOf_loop elemFunc i [] tgt = (None, tgt)"
| "confSliceOf_loop elemFunc i (elem # rest) tgt =
     (case elemFunc elem of
        Inl err \<Rightarrow> (Some (FailedToParseElement i err), tgt)
      | Inr parsed \<Rightarrow> confSliceOf_loop elemFunc (Suc i) rest (tgt @ [parsed]))"

text \<open>
  \<open>confSliceOf(v, tgt, elemFunc, minLen, maxLen)\<close>: the loop, then the range
  check, which reads \<open>len(v)\<close>. \<open>minLen\<close> and \<open>maxLen\<close> are Go \<open>int\<close>s; the
  comparisons cannot overflow, so they are modelled on \<open>int\<close>.
\<close>

definition confSliceOf ::
  "string \<Rightarrow> 'a list \<Rightarrow> (string \<Rightarrow> 'e + 'a) \<Rightarrow> int \<Rightarrow> int \<Rightarrow> 'e conf_error option \<times> 'a list" where
  "confSliceOf v tgt elemFunc minLen maxLen =
     (case confSliceOf_loop elemFunc 0 (strings_Split v CHR '','') tgt of
        (Some err, tgt') \<Rightarrow> (Some err, tgt')
      | (None, tgt') \<Rightarrow>
          if int (length v) < minLen \<or> int (length v) > maxLen
          then (Some (SliceLengthNotInRange (int (length v)) minLen maxLen), tgt')
          else (None, tgt'))"

text \<open>\<open>math.MaxInt64\<close>, the upper bound both callers in \<open>envMap\<close> pass.\<close>

definition MaxInt64 :: int where
  "MaxInt64 = 9223372036854775807"

section \<open>Properties of the service\<close>

lemmas tx_call_defs = store_BeginTx_def tx_Commit_def tx_Rollback_def
  tx_FindUserByEmail_def tx_CreateUser_def tx_CreateEmailToken_def

lemmas example_defs = example_Prims_def example_Service_def example_world_def alice_def newUser_def
  test_now_def newActivationToken_def
lemmas db_defs = db_New_def db_BeginTx_def db_Tx_def db_Commit_def db_Rollback_def db_CreateUser_def
  db_FindUserByEmail_def db_CreateEmailToken_def next_id_def db_empty_def

lemma errors_Is_refl: "errors_Is e e"
  by (cases e) simp_all

text \<open>What \<open>inTx\<close> does once \<open>BeginTx\<close> has succeeded and \<open>f\<close> has returned.\<close>

lemma inTx_after_f:
  assumes "BeginTx (store s) (st w) = (Inr tx, s1)"
      and "f tx c (w\<lparr>st := s1, calls := calls w @ [CallBeginTx]\<rparr>) = (r, c2, w2)"
  shows "inTx s f c w =
           (case r of
              Some err \<Rightarrow>
                (case Rollback tx (st w2) of
                   (rb, s3) \<Rightarrow>
                     (Some (case rb of None \<Rightarrow> err | Some rBackErr \<Rightarrow> Join err rBackErr), c2,
                      w2\<lparr>st := s3, calls := calls w2 @ [CallRollback rb]\<rparr>))
            | None \<Rightarrow>
                (case Commit tx (st w2) of
                   (ce, s3) \<Rightarrow> (ce, c2, w2\<lparr>st := s3, calls := calls w2 @ [CallCommit ce]\<rparr>)))"
  using assms
  by (simp add: inTx_def tx_call_defs split: prod.split option.split)

text \<open>The closure of \<open>startActivation\<close>, with the recorded calls written out.\<close>

lemma startActivation_txFunc_eq:
  "startActivation_txFunc tx (user, et) w =
     (case FindUserByEmail tx (uEmail user) (st w) of
        (Inr found, s1) \<Rightarrow>
          (Some ErrDuplicateAccount, (user, et),
           w\<lparr>st := s1, calls := calls w @ [CallFindUserByEmail (uEmail user)]\<rparr>)
      | (Inl txErr, s1) \<Rightarrow>
          if \<not> errors_Is txErr ErrNotFound
          then (Some txErr, (user, et),
                w\<lparr>st := s1, calls := calls w @ [CallFindUserByEmail (uEmail user)]\<rparr>)
          else
            (case CreateUser tx user s1 of
               ((Some txErr, user2), s2) \<Rightarrow>
                 (Some txErr, (user2, et),
                  w\<lparr>st := s2, calls := calls w @ [CallFindUserByEmail (uEmail user), CallCreateUser user]\<rparr>)
             | ((None, user2), s2) \<Rightarrow>
                 (case CreateEmailToken tx (et\<lparr>tUserID := uID user2\<rparr>) s2 of
                    ((r, et2), s3) \<Rightarrow>
                      (r, (user2, et2),
                       w\<lparr>st := s3,
                         calls := calls w @ [CallFindUserByEmail (uEmail user), CallCreateUser user,
                                             CallCreateEmailToken (et\<lparr>tUserID := uID user2\<rparr>)]\<rparr>))))"
  by (simp add: startActivation_txFunc_def tx_call_defs split: prod.split sum.split option.split)

text \<open>
  Claim C4. Let \<open>inTx\<close> have begun a transaction \<open>tx\<close> and let the
  function \<open>f\<close> have returned \<open>r\<close>, leaving the world \<open>w2\<close>. If \<open>r\<close> is an
  error, \<open>inTx\<close> calls \<open>Rollback\<close> (the last recorded call, after everything
  \<open>f\<close> did) and returns that error, joined with the error of \<open>Rollback\<close> if
  it has one; \<open>Commit\<close> is not called. If \<open>r\<close> is \<open>nil\<close>, \<open>inTx\<close> calls
  \<open>Commit\<close> once and returns what it returns.
\<close>

theorem inTx_rollback_or_commit:
  assumes "BeginTx (store s) (st w) = (Inr tx, s1)"
      and "f tx c (w\<lparr>st := s1, calls := calls w @ [CallBeginTx]\<rparr>) = (r, c2, w2)"
      and "Rollback tx (st w2) = (rb, s3)"
      and "Commit tx (st w2) = (ce, s4)"
  shows "(\<forall>err. r = Some err \<longrightarrow>
            inTx s f c w =
              (Some (case rb of None \<Rightarrow> err | Some rBackErr \<Rightarrow> Join err rBackErr), c2,
               w2\<lparr>st := s3, calls := calls w2 @ [CallRollback rb]\<rparr>))
       \<and> (r = None \<longrightarrow>
            inTx s f c w = (ce, c2, w2\<lparr>st := s4, calls := calls w2 @ [CallCommit ce]\<rparr>))"
  using inTx_after_f [of s w tx s1 f c r c2 w2] assms
  by (cases r) simp_all

text \<open>
  Against the store of package auth/db: with \<open>alice@example.com\<close> registered
  the closure of \<open>startActivation\<close> fails and is rolled back; on an empty
  database it succeeds and is committed.
\<close>

theorem inTx_rollback_or_commit_witness:
  "fst (inTx (example_Service None) startActivation_txFunc
          (newUser, newActivationToken ''hash2'' newUser) (example_world [alice True]))
     = Some ErrDuplicateAccount
   \<and> calls (snd (snd (inTx (example_Service None) startActivation_txFunc
          (newUser, newActivationToken ''hash2'' newUser) (example_world [alice True]))))
     = [CallBeginTx, CallFindUserByEmail ''alice@example.com'', CallRollback None]
   \<and> fst (inTx (example_Service None) startActivation_txFunc
          (newUser, newActivationToken ''hash2'' newUser) (example_world []))
     = None
   \<and> calls_since (example_world []) (snd (snd (inTx (example_Service None) startActivation_txFunc
          (newUser, newActivationToken ''hash2'' newUser) (example_world []))))
     = [CallBeginTx, CallFindUserByEmail ''alice@example.com'', CallCreateUser newUser,
        CallCreateEmailToken ((newActivationToken ''hash2'' newUser)\<lparr>tUserID := 1\<rparr>), CallCommit None]"
proof -
  let ?s = "example_Service None"
  let ?c = "(newUser, newActivationToken ''hash2'' newUser)"
  let ?f = "startActivation_txFunc :: db_state Tx \<Rightarrow> _"
  let ?tx = "db_Tx test_now"
  have dup:
    "fst (inTx ?s ?f ?c (example_world [alice True])) = Some ErrDuplicateAccount \<and>
     calls (snd (snd (inTx ?s ?f ?c (example_world [alice True])))) =
       [CallBeginTx, CallFindUserByEmail ''alice@example.com'', CallRollback None]"
  proof -
    let ?w = "example_world [alice True]"
    let ?s1 = "snd (db_BeginTx test_now (st ?w))"
    let ?w1 = "?w\<lparr>st := ?s1, calls := calls ?w @ [CallBeginTx]\<rparr>"
    let ?w2 = "snd (snd (?f ?tx ?c ?w1))"
    have b: "BeginTx (store ?s) (st ?w) = (Inr ?tx, ?s1)"
      by (simp add: example_Service_def db_New_def db_BeginTx_def)
    have f: "?f ?tx ?c ?w1 = (Some ErrDuplicateAccount, ?c, ?w2)"
      by (simp add: startActivation_txFunc_eq example_defs db_defs)
    have rb: "Rollback ?tx (st ?w2) = (None, snd (db_Rollback (st ?w2)))"
      by (simp add: db_Tx_def db_Rollback_def)
    have ce: "Commit ?tx (st ?w2) = (fst (db_Commit (st ?w2)), snd (db_Commit (st ?w2)))"
      by (simp add: db_Tx_def)
    from inTx_rollback_or_commit [of ?s ?w ?tx ?s1 ?f ?c "Some ErrDuplicateAccount" ?c ?w2, OF b f rb ce]
    have "inTx ?s ?f ?c ?w =
            (Some ErrDuplicateAccount, ?c,
             ?w2\<lparr>st := snd (db_Rollback (st ?w2)), calls := calls ?w2 @ [CallRollback None]\<rparr>)"
      by simp
    then show ?thesis
      by (simp add: startActivation_txFunc_eq example_defs db_defs)
  qed
  have ok:
    "fst (inTx ?s ?f ?c (example_world [])) = None \<and>
     calls_since (example_world []) (snd (snd (inTx ?s ?f ?c (example_world [])))) =
       [CallBeginTx, CallFindUserByEmail ''alice@example.com'', CallCreateUser newUser,
        CallCreateEmailToken ((newActivationToken ''hash2'' newUser)\<lparr>tUserID := 1\<rparr>), CallCommit None]"
  proof -
    let ?w = "example_world []"
    let ?s1 = "snd (db_BeginTx test_now (st ?w))"
    let ?w1 = "?w\<lparr>st := ?s1, calls := calls ?w @ [CallBeginTx]\<rparr>"
    let ?c2 = "fst (snd (?f ?tx ?c ?w1))"
    let ?w2 = "snd (snd (?f ?tx ?c ?w1))"
    have b: "BeginTx (store ?s) (st ?w) = (Inr ?tx, ?s1)"
      by (simp add: example_Service_def db_New_def db_BeginTx_def)
    have f: "?f ?tx ?c ?w1 = (None, ?c2, ?w2)"
      by (simp add: startActivation_txFunc_eq example_defs db_defs Let_def)
    have rb: "Rollback ?tx (st ?w2) = (None, snd (db_Rollback (st ?w2)))"
      by (simp add: db_Tx_def db_Rollback_def)
    have ce: "Commit ?tx (st ?w2) = (None, snd (db_Commit (st ?w2)))"
      by (simp add: startActivation_txFunc_eq example_defs db_defs Let_def)
    from inTx_rollback_or_commit [of ?s ?w ?tx ?s1 ?f ?c None ?c2 ?w2, OF b f rb ce]
    have "inTx ?s ?f ?c ?w =
            (None, ?c2, ?w2\<lparr>st := snd (db_Commit (st ?w2)), calls := calls ?w2 @ [CallCommit None]\<rparr>)"
      by simp
    then show ?thesis
      by (simp add: calls_since_def startActivation_txFunc_eq example_defs db_defs Let_def)
  qed
  from dup ok show ?thesis by simp
qed

text \<open>
  Claim C3. Let the token be generated and hashed and the transaction begun,
  so that \<open>startActivation\<close> reaches \<open>FindUserByEmail\<close>. If that call finds a
  user, whatever the user's fields (active or not), \<open>startActivation\<close>
  returns an error that is \<open>ErrDuplicateAccount\<close> under \<open>errors.Is\<close> (the
  sentinel itself when \<open>Rollback\<close> succeeds, joined with the rollback error
  otherwise) and calls nothing but \<open>Rollback\<close> afterwards. If the call fails
  with an error that is not \<open>ErrNotFound\<close>, that error is returned and again
  only \<open>Rollback\<close> follows. Only when it fails with \<open>ErrNotFound\<close> is
  \<open>CreateUser\<close> called next, and when that succeeds \<open>CreateEmailToken\<close> with
  the new user's id.
\<close>

theorem startActivation_duplicate_check:
  assumes gen: "GenerateToken P = Inr token"
      and hash: "Token_Hash P token = Inr tokenHash"
      and beg: "BeginTx (store s) (st w) = (Inr tx, s1)"
      and find: "FindUserByEmail tx (uEmail user) s1 = (found, s2)"
  shows "(\<forall>u. found = Inr u \<longrightarrow>
            (\<exists>e. fst (startActivation P s user w) = Some e \<and> errors_Is e ErrDuplicateAccount) \<and>
            (fst (Rollback tx s2) = None \<longrightarrow> fst (startActivation P s user w) = Some ErrDuplicateAccount) \<and>
            calls (snd (startActivation P s user w)) =
              calls w @ [CallBeginTx, CallFindUserByEmail (uEmail user), CallRollback (fst (Rollback tx s2))])
       \<and> (\<forall>e. found = Inl e \<and> \<not> errors_Is e ErrNotFound \<longrightarrow>
            (\<exists>e'. fst (startActivation P s user w) = Some e' \<and> errors_Is e' e) \<and>
            calls (snd (startActivation P s user w)) =
              calls w @ [CallBeginTx, CallFindUserByEmail (uEmail user), CallRollback (fst (Rollback tx s2))])
       \<and> (\<forall>e. found = Inl e \<and> errors_Is e ErrNotFound \<longrightarrow>
            take (length (calls w) + 3) (calls (snd (startActivation P s user w))) =
              calls w @ [CallBeginTx, CallFindUserByEmail (uEmail user), CallCreateUser user] \<and>
            (\<forall>user2 s3. CreateUser tx user s2 = ((None, user2), s3) \<longrightarrow>
               take (length (calls w) + 4) (calls (snd (startActivation P s user w))) =
                 calls w @ [CallBeginTx, CallFindUserByEmail (uEmail user), CallCreateUser user,
                            CallCreateEmailToken ((newActivationToken tokenHash user)\<lparr>tUserID := uID user2\<rparr>)]))"
proof -
  let ?w1 = "w\<lparr>st := s1, calls := calls w @ [CallBeginTx]\<rparr>"
  let ?et = "newActivationToken tokenHash user"
  obtain r c2 w2 where f: "startActivation_txFunc tx (user, ?et) ?w1 = (r, c2, w2)"
    by (cases "startActivation_txFunc tx (user, ?et) ?w1") auto
  note run = inTx_after_f [of s w tx s1 startActivation_txFunc "(user, ?et)" r c2 w2, OF beg f]
  show ?thesis
  proof (cases found)
    case (Inr u)
    from f find Inr have "r = Some ErrDuplicateAccount"
      and "w2 = ?w1\<lparr>st := s2, calls := calls ?w1 @ [CallFindUserByEmail (uEmail user)]\<rparr>"
      by (simp_all add: startActivation_txFunc_eq)
    with run gen hash Inr show ?thesis
      by (cases "Rollback tx s2"; cases "fst (Rollback tx s2)")
         (simp_all add: startActivation_def errors_Is_refl)
  next
    case (Inl e)
    show ?thesis
    proof (cases "errors_Is e ErrNotFound")
      case False
      from f find Inl False have "r = Some e"
        and "w2 = ?w1\<lparr>st := s2, calls := calls ?w1 @ [CallFindUserByEmail (uEmail user)]\<rparr>"
        by (simp_all add: startActivation_txFunc_eq)
      with run gen hash Inl False show ?thesis
        by (cases "Rollback tx s2"; cases "fst (Rollback tx s2)")
           (simp_all add: startActivation_def errors_Is_refl)
    next
      case True
      obtain r1 user2 s3 where cu: "CreateUser tx user s2 = ((r1, user2), s3)"
        by (cases "CreateUser tx user s2") auto
      show ?thesis
      proof (cases r1)
        case (Some cerr)
        from f find Inl True cu Some have "r = Some cerr"
          and "w2 = ?w1\<lparr>st := s3, calls := calls ?w1 @ [CallFindUserByEmail (uEmail user), CallCreateUser user]\<rparr>"
          by (simp_all add: startActivation_txFunc_eq)
        with run gen hash Inl True cu Some show ?thesis
          by (cases "Rollback tx s3") (simp add: startActivation_def)
      next
        case None
        obtain r2 et2 s4 where ct: "CreateEmailToken tx (?et\<lparr>tUserID := uID user2\<rparr>) s3 = ((r2, et2), s4)"
          by (cases "CreateEmailToken tx (?et\<lparr>tUserID := uID user2\<rparr>) s3") auto
        from f find Inl True cu None ct have r: "r = r2" and c2: "c2 = (user2, et2)"
          and w2: "w2 = ?w1\<lparr>st := s4, calls := calls ?w1 @ [CallFindUserByEmail (uEmail user), CallCreateUser user,
                        CallCreateEmailToken (?et\<lparr>tUserID := uID user2\<rparr>)]\<rparr>"
          by (simp_all add: startActivation_txFunc_eq)
        show ?thesis
        proof (cases r2)
          case (Some terr)
          with run gen hash Inl True cu None r c2 w2 show ?thesis
            by (cases "Rollback tx s4") (simp add: startActivation_def)
        next
          case N2: None
          with run gen hash Inl True cu None r c2 w2 show ?thesis
            by (cases "Commit tx s4"; cases "fst (Commit tx s4)";
                cases "emailSvc_Send s \<lparr>mName = ''account-activation'', mTo = uEmail user2,
                                          mID = tID et2, mToken = token\<rparr>")
               (simp_all add: startActivation_def Let_def)
        qed
      qed
    qed
  qed
qed

text \<open>
  An inactive and an active \<open>alice@example.com\<close> both give
  \<open>ErrDuplicateAccount\<close>; on an empty database the user and the token are
  created.
\<close>

theorem startActivation_duplicate_check_witness:
  "fst (startActivation example_Prims (example_Service None) newUser (example_world [alice False]))
     = Some ErrDuplicateAccount
   \<and> fst (startActivation example_Prims (example_Service None) newUser (example_world [alice True]))
     = Some ErrDuplicateAccount
   \<and> calls (snd (startActivation example_Prims (example_Service None) newUser (example_world [alice False])))
     = [CallBeginTx, CallFindUserByEmail ''alice@example.com'', CallRollback None]
   \<and> take 4 (calls (snd (startActivation example_Prims (example_Service None) newUser (example_world []))))
     = [CallBeginTx, CallFindUserByEmail ''alice@example.com'', CallCreateUser newUser,
        CallCreateEmailToken ((newActivationToken ''hash2'' newUser)\<lparr>tUserID := 1\<rparr>)]"
proof -
  let ?P = example_Prims
  let ?s = "example_Service None"
  let ?tx = "db_Tx test_now"
  have gen: "GenerateToken ?P = Inr ''raw-token''" by (simp add: example_Prims_def)
  have hash: "Token_Hash ?P ''raw-token'' = Inr ''hash2''" by (simp add: example_Prims_def)
  have dup: "fst (startActivation ?P ?s newUser (example_world [alice a])) = Some ErrDuplicateAccount \<and>
             calls (snd (startActivation ?P ?s newUser (example_world [alice a]))) =
               [CallBeginTx, CallFindUserByEmail ''alice@example.com'', CallRollback None]" for a
  proof -
    let ?w = "example_world [alice a]"
    let ?s1 = "snd (db_BeginTx test_now (st ?w))"
    have beg: "BeginTx (store ?s) (st ?w) = (Inr ?tx, ?s1)"
      by (simp add: example_Service_def db_New_def db_BeginTx_def)
    have find: "FindUserByEmail ?tx (uEmail newUser) ?s1 = (Inr (alice a), ?s1)"
      by (simp add: example_defs db_defs)
    from startActivation_duplicate_check [OF gen hash beg find]
    show ?thesis
      by (simp add: db_Tx_def db_Rollback_def example_world_def newUser_def)
  qed
  have fresh: "take 4 (calls (snd (startActivation ?P ?s newUser (example_world [])))) =
       [CallBeginTx, CallFindUserByEmail ''alice@example.com'', CallCreateUser newUser,
        CallCreateEmailToken ((newActivationToken ''hash2'' newUser)\<lparr>tUserID := 1\<rparr>)]"
  proof -
    let ?w = "example_world []"
    let ?s1 = "snd (db_BeginTx test_now (st ?w))"
    let ?u2 = "fst (db_CreateUser test_now newUser ?s1)"
    have beg: "BeginTx (store ?s) (st ?w) = (Inr ?tx, ?s1)"
      by (simp add: example_Service_def db_New_def db_BeginTx_def)
    have find: "FindUserByEmail ?tx (uEmail newUser) ?s1 = (Inl ErrNotFound, ?s1)"
      by (simp add: example_defs db_defs)
    have cu: "CreateUser ?tx newUser ?s1 =
                ((None, newUser\<lparr>uID := 1, uCreatedAt := 1609459200, uUpdatedAt := 1609459200\<rparr>),
                 snd (db_CreateUser test_now newUser ?s1))"
      by (simp add: example_defs db_defs Let_def)
    from startActivation_duplicate_check [OF gen hash beg find] cu
    show ?thesis
      by (simp add: example_world_def newUser_def)
  qed
  from dup [of False] dup [of True] fresh show ?thesis by simp
qed

text \<open>
  What the transaction of \<open>startActivation\<close> records: no \<open>Send\<close>; a
  \<open>CreateEmailToken\<close> only with the token hash it was given; a successful
  \<open>Commit\<close> last when it returns \<open>nil\<close>. It leaves \<open>handled\<close> and \<open>pending\<close>
  alone.
\<close>

lemma inTx_txFunc_shape:
  "(\<forall>m. CallSend m \<notin> set (calls_since w (snd (snd (inTx s startActivation_txFunc (user, et) w)))))
   \<and> (\<forall>t. CallCreateEmailToken t \<in> set (calls_since w (snd (snd (inTx s startActivation_txFunc (user, et) w))))
          \<longrightarrow> tTokenHash t = tTokenHash et)
   \<and> (fst (inTx s startActivation_txFunc (user, et) w) = None \<longrightarrow>
          last (calls (snd (snd (inTx s startActivation_txFunc (user, et) w)))) = CallCommit None)
   \<and> handled (snd (snd (inTx s startActivation_txFunc (user, et) w))) = handled w
   \<and> pending (snd (snd (inTx s startActivation_txFunc (user, et) w))) = pending w"
  by (simp add: inTx_def startActivation_txFunc_eq tx_call_defs calls_since_def
           split: prod.split sum.split option.split)

text \<open>
  Claim C9. Let the token be generated and hashed, and let the transaction of
  \<open>startActivation\<close> (\<open>inTx\<close> with its closure) return \<open>r\<close> and the world
  \<open>w1\<close>. No \<open>Send\<close> happens inside the transaction, and the only
  \<open>EmailToken\<close> handed to the store carries the hash of the token. If the
  transaction fails (\<open>r\<close> is an error, the duplicate account included),
  \<open>startActivation\<close> returns that error in the world \<open>w1\<close>: nothing is sent.
  If it succeeds, the last call before \<open>Send\<close> is a \<open>Commit\<close> that returned
  \<open>nil\<close>; \<open>Send\<close> gets the raw token and the id of the stored email token;
  \<open>startActivation\<close> returns what \<open>Send\<close> returns, and whether that is an
  error or not the store is left as the \<open>Commit\<close> left it.
\<close>

theorem startActivation_send_after_commit:
  assumes gen: "GenerateToken P = Inr token"
      and hash: "Token_Hash P token = Inr tokenHash"
      and tx: "inTx s startActivation_txFunc (user, newActivationToken tokenHash user) w =
                 (r, (user2, emailToken2), w1)"
  shows "(\<forall>m. CallSend m \<notin> set (calls_since w w1))
       \<and> (\<forall>t. CallCreateEmailToken t \<in> set (calls_since w w1) \<longrightarrow> tTokenHash t = tokenHash)
       \<and> (r \<noteq> None \<longrightarrow> startActivation P s user w = (r, w1))
       \<and> (r = None \<longrightarrow>
            last (calls w1) = CallCommit None \<and>
            startActivation P s user w =
              (emailSvc_Send s \<lparr>mName = ''account-activation'', mTo = uEmail user2,
                                mID = tID emailToken2, mToken = token\<rparr>,
               w1\<lparr>calls := calls w1 @ [CallSend \<lparr>mName = ''account-activation'', mTo = uEmail user2,
                                                 mID = tID emailToken2, mToken = token\<rparr>]\<rparr>))"
proof -
  have shape: "(\<forall>m. CallSend m \<notin> set (calls_since w w1))
     \<and> (\<forall>t. CallCreateEmailToken t \<in> set (calls_since w w1) \<longrightarrow> tTokenHash t = tokenHash)
     \<and> (r = None \<longrightarrow> last (calls w1) = CallCommit None)"
    using inTx_txFunc_shape [of w s user "newActivationToken tokenHash user"] tx
    by (simp add: newActivationToken_def)
  have run: "startActivation P s user w =
      (case r of
         Some err \<Rightarrow> (Some err, w1)
       | None \<Rightarrow>
           (emailSvc_Send s \<lparr>mName = ''account-activation'', mTo = uEmail user2,
                             mID = tID emailToken2, mToken = token\<rparr>,
            w1\<lparr>calls := calls w1 @ [CallSend \<lparr>mName = ''account-activation'', mTo = uEmail user2,
                                              mID = tID emailToken2, mToken = token\<rparr>]\<rparr>))"
    using gen hash tx
    by (simp add: startActivation_def Let_def split: option.split)
  show ?thesis using shape run by (cases r) simp_all
qed

text \<open>
  With a \<open>Send\<close> that fails, on an empty database: the error of \<open>Send\<close> is
  returned, and the user and the email token (holding the hash, not the raw
  token) are committed. With \<open>alice@example.com\<close> registered the transaction
  fails and \<open>startActivation\<close> ends there.
\<close>

theorem startActivation_send_after_commit_witness:
  "fst (startActivation example_Prims (example_Service (Some (ErrOther ''smtp down''))) newUser (example_world []))
     = Some (ErrOther ''smtp down'')
   \<and> calls (snd (startActivation example_Prims (example_Service (Some (ErrOther ''smtp down''))) newUser
                    (example_world [])))
     = [CallBeginTx, CallFindUserByEmail ''alice@example.com'', CallCreateUser newUser,
        CallCreateEmailToken ((newActivationToken ''hash2'' newUser)\<lparr>tUserID := 1\<rparr>), CallCommit None,
        CallSend \<lparr>mName = ''account-activation'', mTo = ''alice@example.com'', mID = 1,
                  mToken = ''raw-token''\<rparr>]
   \<and> committed_users (st (snd (startActivation example_Prims (example_Service (Some (ErrOther ''smtp down'')))
                                  newUser (example_world []))))
     = [newUser\<lparr>uID := 1, uCreatedAt := 1609459200, uUpdatedAt := 1609459200\<rparr>]
   \<and> committed_tokens (st (snd (startActivation example_Prims (example_Service (Some (ErrOther ''smtp down'')))
                                   newUser (example_world []))))
     = [(newActivationToken ''hash2'' newUser)\<lparr>tID := 1, tUserID := 1, tCreatedAt := 1609459201\<rparr>]
   \<and> startActivation example_Prims (example_Service None) newUser (example_world [alice True])
     = (Some ErrDuplicateAccount,
        snd (snd (inTx (example_Service None) startActivation_txFunc
                    (newUser, newActivationToken ''hash2'' newUser) (example_world [alice True]))))"
proof -
  let ?P = example_Prims
  let ?et = "newActivationToken ''hash2'' newUser"
  have gen: "GenerateToken ?P = Inr ''raw-token''" by (simp add: example_Prims_def)
  have hash: "Token_Hash ?P ''raw-token'' = Inr ''hash2''" by (simp add: example_Prims_def)
  have sent:
    "fst (startActivation ?P (example_Service (Some (ErrOther ''smtp down''))) newUser (example_world []))
       = Some (ErrOther ''smtp down'')
     \<and> calls (snd (startActivation ?P (example_Service (Some (ErrOther ''smtp down''))) newUser (example_world [])))
       = [CallBeginTx, CallFindUserByEmail ''alice@example.com'', CallCreateUser newUser,
          CallCreateEmailToken (?et\<lparr>tUserID := 1\<rparr>), CallCommit None,
          CallSend \<lparr>mName = ''account-activation'', mTo = ''alice@example.com'', mID = 1,
                    mToken = ''raw-token''\<rparr>]
     \<and> committed_users (st (snd (startActivation ?P (example_Service (Some (ErrOther ''smtp down''))) newUser
                                    (example_world []))))
       = [newUser\<lparr>uID := 1, uCreatedAt := 1609459200, uUpdatedAt := 1609459200\<rparr>]
     \<and> committed_tokens (st (snd (startActivation ?P (example_Service (Some (ErrOther ''smtp down''))) newUser
                                     (example_world []))))
       = [?et\<lparr>tID := 1, tUserID := 1, tCreatedAt := 1609459201\<rparr>]"
  proof -
    let ?s = "example_Service (Some (ErrOther ''smtp down''))"
    let ?w = "example_world []"
    let ?X = "inTx ?s startActivation_txFunc (newUser, ?et) ?w"
    have tx: "?X = (None, (fst (fst (snd ?X)), snd (fst (snd ?X))), snd (snd ?X))"
      by (simp add: inTx_def tx_call_defs startActivation_txFunc_eq Let_def example_defs db_defs)
    from startActivation_send_after_commit [OF gen hash tx]
    show ?thesis
      by (simp add: inTx_def tx_call_defs startActivation_txFunc_eq Let_def example_defs db_defs)
  qed
  have dup: "startActivation ?P (example_Service None) newUser (example_world [alice True])
     = (Some ErrDuplicateAccount,
        snd (snd (inTx (example_Service None) startActivation_txFunc (newUser, ?et) (example_world [alice True]))))"
  proof -
    let ?s = "example_Service None"
    let ?w = "example_world [alice True]"
    let ?X = "inTx ?s startActivation_txFunc (newUser, ?et) ?w"
    have tx: "?X = (Some ErrDuplicateAccount, (fst (fst (snd ?X)), snd (fst (snd ?X))), snd (snd ?X))"
      by (simp add: inTx_def tx_call_defs startActivation_txFunc_eq Let_def example_defs db_defs)
    from startActivation_send_after_commit [OF gen hash tx]
    show ?thesis by simp
  qed
  from sent dup show ?thesis by simp
qed

text \<open>\<open>startActivation\<close> does not touch \<open>handled\<close> and \<open>pending\<close>.\<close>

lemma startActivation_frame:
  "handled (snd (startActivation P s user w)) = handled w \<and>
   pending (snd (startActivation P s user w)) = pending w"
proof (cases "GenerateToken P")
  case (Inl err)
  then show ?thesis by (simp add: startActivation_def)
next
  case (Inr token)
  show ?thesis
  proof (cases "Token_Hash P token")
    case (Inl err)
    with Inr show ?thesis by (simp add: startActivation_def)
  next
    case (Inr tokenHash)
    obtain r c2 w1 where tx: "inTx s startActivation_txFunc (user, newActivationToken tokenHash user) w = (r, c2, w1)"
      by (cases "inTx s startActivation_txFunc (user, newActivationToken tokenHash user) w") auto
    have "handled w1 = handled w \<and> pending w1 = pending w"
      using inTx_txFunc_shape [of w s user "newActivationToken tokenHash user"] tx by simp
    with \<open>GenerateToken P = Inr token\<close> Inr tx show ?thesis
      by (simp add: startActivation_def Let_def split: option.split prod.split)
  qed
qed

text \<open>
  Claim C1. When the password hashes, \<open>RegisterAccount\<close> returns \<open>nil\<close> and
  only adds the goroutine to the pending ones: the store is not consulted,
  so the result is the same whether or not the email is registered. When the
  password does not hash, that error is returned and no goroutine is
  started. The goroutine passes every error of \<open>startActivation\<close> to
  \<open>errHandler\<close> and calls it for nothing else; it has no result that could
  reach the caller.
\<close>

theorem RegisterAccount_returns_nil:
  "(\<forall>pwdHash. Password_Hash P (cPassword c) = Inr pwdHash \<longrightarrow>
      RegisterAccount P s c w =
        (None, w\<lparr>pending := pending w @
                   [\<lparr>uID = 0, uEmail = cEmail c, uPasswordHash = pwdHash, uIsActive = False,
                     uCreatedAt = 0, uUpdatedAt = 0\<rparr>]\<rparr>))
   \<and> (\<forall>err. Password_Hash P (cPassword c) = Inl err \<longrightarrow> RegisterAccount P s c w = (Some err, w))
   \<and> handled (RegisterAccount_goroutine P s user w) =
       handled w @ (case fst (startActivation P s user w) of None \<Rightarrow> [] | Some err \<Rightarrow> [err])"
  using startActivation_frame [of P s user w]
  by (cases "startActivation P s user w")
     (simp add: RegisterAccount_def RegisterAccount_goroutine_def Let_def split: option.split)

text \<open>
  Registering \<open>alice@example.com\<close> a second time returns \<open>nil\<close>; the goroutine
  then hands \<open>ErrDuplicateAccount\<close> to the handler. An empty password, which
  the example's \<open>Password.Hash\<close> rejects, is reported to the caller.
\<close>

theorem RegisterAccount_returns_nil_witness:
  "fst (RegisterAccount example_Prims (example_Service None)
          \<lparr>cEmail = ''alice@example.com'', cPassword = ''secret''\<rparr> (example_world [alice True])) = None
   \<and> fst (RegisterAccount example_Prims (example_Service None)
          \<lparr>cEmail = ''alice@example.com'', cPassword = ''secret''\<rparr> (example_world [])) = None
   \<and> handled (run_goroutine example_Prims (example_Service None)
        (snd (RegisterAccount example_Prims (example_Service None)
               \<lparr>cEmail = ''alice@example.com'', cPassword = ''secret''\<rparr> (example_world [alice True]))))
      = [ErrDuplicateAccount]
   \<and> RegisterAccount example_Prims (example_Service None)
          \<lparr>cEmail = ''alice@example.com'', cPassword = ''''\<rparr> (example_world [alice True])
      = (Some (ErrOther ''empty password''), example_world [alice True])"
proof -
  let ?P = example_Prims
  let ?s = "example_Service None"
  let ?c = "\<lparr>cEmail = ''alice@example.com'', cPassword = ''secret''\<rparr>"
  let ?bad = "\<lparr>cEmail = ''alice@example.com'', cPassword = ''''\<rparr>"
  let ?w = "example_world [alice True]"
  have sa: "fst (startActivation ?P ?s newUser ?w) = Some ErrDuplicateAccount"
    by (simp add: startActivation_def inTx_def tx_call_defs startActivation_txFunc_eq Let_def
          example_defs db_defs)
  note thm1 = RegisterAccount_returns_nil [of ?P ?c ?s ?w newUser]
  note thm2 = RegisterAccount_returns_nil [of ?P ?c ?s "example_world []" newUser]
  note thm3 = RegisterAccount_returns_nil [of ?P ?bad ?s ?w newUser]
  have a: "RegisterAccount ?P ?s ?c ?w = (None, ?w\<lparr>pending := [newUser\<lparr>uPasswordHash := ''hash1''\<rparr>]\<rparr>)"
    using thm1 by (simp add: example_Prims_def example_world_def newUser_def)
  have b: "fst (RegisterAccount ?P ?s ?c (example_world [])) = None"
    using thm2 by (simp add: example_Prims_def)
  have c: "RegisterAccount ?P ?s ?bad ?w = (Some (ErrOther ''empty password''), ?w)"
    using thm3 by (simp add: example_Prims_def)
  have d: "handled (RegisterAccount_goroutine ?P ?s newUser ?w) = [ErrDuplicateAccount]"
    using thm1 sa by (simp add: example_world_def)
  have e: "run_goroutine ?P ?s (?w\<lparr>pending := [newUser\<lparr>uPasswordHash := ''hash1''\<rparr>]\<rparr>)
             = RegisterAccount_goroutine ?P ?s newUser ?w"
    by (simp add: run_goroutine_def example_world_def newUser_def)
  from a b c d e show ?thesis by simp
qed

section \<open>Properties of the store\<close>

lemmas test_defs = test_tx_def setupUsers_def setupUsers_ops_def newUser_def newEmailToken_def test_now_def
  db_BeginTx_def db_empty_def
lemmas db_op_defs = db_CreateUser_def db_UpdateUser_def db_FindUserByEmail_def db_FindUsers_def
  db_CreateEmailToken_def db_UpdateEmailToken_def db_FindEmailTokenByID_def db_Commit_def next_id_def Let_def

lemma fold_max_bounds: "a \<le> fold max ids a \<and> (\<forall>x \<in> set ids. x \<le> fold max ids (a::int))"
proof (induction ids arbitrary: a)
  case Nil
  show ?case by simp
next
  case (Cons i ids)
  from Cons.IH [of "max i a"] show ?case by auto
qed

lemma next_id_fresh: "0 < next_id ids \<and> next_id ids \<notin> set ids"
  using fold_max_bounds [of 0 ids] by (fastforce simp: next_id_def)

lemma find_map_replace:
  "key y = j \<Longrightarrow>
   find (\<lambda>x. key x = i) (map (\<lambda>x. if key x = j then y else x) xs) =
   map_option (\<lambda>x. if key x = j then y else x) (find (\<lambda>x. key x = i) xs)"
  by (induction xs) auto

lemma find_snoc:
  "find P (xs @ [y]) = (case find P xs of Some x \<Rightarrow> Some x | None \<Rightarrow> if P y then Some y else None)"
  by (induction xs) auto

lemma find_None_iff_all: "find P xs = None \<longleftrightarrow> (\<forall>x \<in> set xs. \<not> P x)"
  by (induction xs) auto

lemma find_Some_key: "find (\<lambda>x. key x = i) xs = Some y \<Longrightarrow> key y = i \<and> y \<in> set xs"
  by (induction xs) (auto split: if_splits)

lemma db_UpdateEmailToken_found:
  assumes "find (\<lambda>x. tID x = tID t) (tokens s) = Some old"
  shows "db_UpdateEmailToken t s =
           (if tTokenHash t \<noteq> tTokenHash old \<or> tUserID t \<noteq> tUserID old \<or>
               tEmail t \<noteq> tEmail old \<or> tPurpose t \<noteq> tPurpose old
            then ((Some ErrConstraintViolated, t), s\<lparr>failed := True\<rparr>)
            else ((None, t),
                  s\<lparr>tokens := map (\<lambda>x. if tID x = tID t then old\<lparr>tConsumedAt := tConsumedAt t\<rparr> else x)
                                   (tokens s)\<rparr>))"
  using assms by (simp add: db_UpdateEmailToken_def)

text \<open>The failed state is never left, and an operation that succeeds does not enter it.\<close>

lemma db_apply_failed_mono: "failed s \<Longrightarrow> failed (snd (db_apply nowFunc x s))"
  by (cases x)
     (simp_all add: db_CreateUser_def db_UpdateUser_def db_FindUserByEmail_def db_FindUsers_def
        db_CreateEmailToken_def db_UpdateEmailToken_def db_FindEmailTokenByID_def Let_def
        split: option.split)

lemma db_run_failed_mono: "failed s \<Longrightarrow> failed (snd (db_run nowFunc xs s))"
proof (induction xs arbitrary: s)
  case Nil
  then show ?case by simp
next
  case (Cons x xs)
  from Cons.IH [OF db_apply_failed_mono [OF Cons.prems, of nowFunc x]]
  show ?case by (auto split: prod.split)
qed

lemma db_apply_ok_not_failed:
  "\<not> failed s \<Longrightarrow> fst (db_apply nowFunc x s) = None \<Longrightarrow> \<not> failed (snd (db_apply nowFunc x s))"
  by (cases x)
     (auto simp: db_CreateUser_def db_UpdateUser_def db_FindUserByEmail_def db_FindUsers_def
        db_CreateEmailToken_def db_UpdateEmailToken_def db_FindEmailTokenByID_def Let_def
        split: option.splits if_splits)

lemma db_run_no_error_not_failed:
  "\<not> failed s \<Longrightarrow> \<forall>e \<in> set (fst (db_run nowFunc xs s)). e = None \<Longrightarrow>
   \<not> failed (snd (db_run nowFunc xs s))"
proof (induction xs arbitrary: s)
  case Nil
  then show ?case by simp
next
  case (Cons x xs)
  obtain e s' where a: "db_apply nowFunc x s = (e, s')" by (cases "db_apply nowFunc x s")
  obtain es s'' where r: "db_run nowFunc xs s' = (es, s'')" by (cases "db_run nowFunc xs s'")
  from Cons.prems(2) a r have e: "e = None" and es: "\<forall>e \<in> set (fst (db_run nowFunc xs s')). e = None"
    by simp_all
  have "\<not> failed s'"
    using db_apply_ok_not_failed [OF Cons.prems(1), of nowFunc x] a e by auto
  from Cons.IH [OF this es] a r show ?case by simp
qed

text \<open>The states the tests set up.\<close>

lemma setupUsers_users:
  "users setupUsers =
     [newUser\<lparr>uID := 1, uCreatedAt := 1609459200, uUpdatedAt := 1609459200\<rparr>,
      newUser\<lparr>uID := 2, uEmail := ''jacob@example.com'', uIsActive := True,
              uCreatedAt := 1609459201, uUpdatedAt := 1609459201\<rparr>,
      newUser\<lparr>uID := 3, uEmail := ''eva@example.com'', uCreatedAt := 1609459202, uUpdatedAt := 1609459202\<rparr>]"
  by (simp add: test_defs db_CreateUser_def next_id_def Let_def)

lemma setupUser_state:
  "users setupUser = [newUser\<lparr>uID := 1, uCreatedAt := 1609459200, uUpdatedAt := 1609459200\<rparr>]
   \<and> tokens setupUser = [] \<and> ticks setupUser = 1"
  by (simp add: setupUser_def test_defs db_op_defs)

lemma setupToken_tokens:
  "tokens setupToken = [newEmailToken\<lparr>tID := 1, tCreatedAt := 1609459201\<rparr>]"
  by (simp add: setupToken_def test_defs db_op_defs)

text \<open>
  The case "ok, all users, empty slices" of \<open>Test_Tx_FindUser\<close>: with \<open>IDs\<close> and
  \<open>Emails\<close> empty but not nil, \<open>FindUsers\<close> returns all three users, not none.
\<close>

theorem FindUsers_empty_slices_counterexample:
  "fst (db_FindUsers \<lparr>fIDs = Some [], fEmails = Some [], fIsActive = None\<rparr> setupUsers) =
     Inr (users setupUsers)
   \<and> length (users setupUsers) = 3
   \<and> fst (db_FindUsers \<lparr>fIDs = Some [], fEmails = Some [], fIsActive = None\<rparr> setupUsers) \<noteq> Inr []"
  by (simp add: setupUsers_users db_FindUsers_def filter_matches_def filter_dimension_def newUser_def)

text \<open>
  Claim C2, amended. \<open>FindUsers\<close> never fails and returns, in creation order,
  exactly the users that satisfy every dimension of the filter that has an
  element: the id is among \<open>IDs\<close> unless \<open>IDs\<close> is nil or empty, the email is
  among \<open>Emails\<close> unless \<open>Emails\<close> is nil or empty, and \<open>IsActive\<close> agrees
  unless it is nil. An empty, non-nil \<open>IDs\<close> or \<open>Emails\<close> gives the same answer
  as nil: it does not constrain its dimension. When no user matches, the
  result is the empty slice.
\<close>

theorem FindUsers_and_of_nonempty_dimensions:
  "db_FindUsers f s =
     (Inr (filter (\<lambda>u. (fIDs f = None \<or> fIDs f = Some [] \<or> uID u \<in> set (the (fIDs f))) \<and>
                        (fEmails f = None \<or> fEmails f = Some [] \<or> uEmail u \<in> set (the (fEmails f))) \<and>
                        (fIsActive f = None \<or> fIsActive f = Some (uIsActive u)))
                  (users s)), s)
   \<and> db_FindUsers (f\<lparr>fIDs := Some []\<rparr>) s = db_FindUsers (f\<lparr>fIDs := None\<rparr>) s
   \<and> db_FindUsers (f\<lparr>fEmails := Some []\<rparr>) s = db_FindUsers (f\<lparr>fEmails := None\<rparr>) s
   \<and> ((\<forall>u \<in> set (users s). \<not> filter_matches f u) \<longrightarrow> fst (db_FindUsers f s) = Inr [])"
proof -
  have m: "filter_matches f =
      (\<lambda>u. (fIDs f = None \<or> fIDs f = Some [] \<or> uID u \<in> set (the (fIDs f))) \<and>
           (fEmails f = None \<or> fEmails f = Some [] \<or> uEmail u \<in> set (the (fEmails f))) \<and>
           (fIsActive f = None \<or> fIsActive f = Some (uIsActive u)))"
    by (cases "fIDs f"; cases "fEmails f"; cases "fIsActive f")
       (auto simp: fun_eq_iff filter_matches_def filter_dimension_def)
  have ids: "filter_matches (f\<lparr>fIDs := Some []\<rparr>) = filter_matches (f\<lparr>fIDs := None\<rparr>)"
    by (simp add: fun_eq_iff filter_matches_def filter_dimension_def)
  have emails: "filter_matches (f\<lparr>fEmails := Some []\<rparr>) = filter_matches (f\<lparr>fEmails := None\<rparr>)"
    by (simp add: fun_eq_iff filter_matches_def filter_dimension_def)
  have none: "(\<forall>u \<in> set (users s). \<not> filter_matches f u) \<longrightarrow> filter (filter_matches f) (users s) = []"
    by (simp add: filter_empty_conv)
  have first: "db_FindUsers f s =
     (Inr (filter (\<lambda>u. (fIDs f = None \<or> fIDs f = Some [] \<or> uID u \<in> set (the (fIDs f))) \<and>
                        (fEmails f = None \<or> fEmails f = Some [] \<or> uEmail u \<in> set (the (fEmails f))) \<and>
                        (fIsActive f = None \<or> fIsActive f = Some (uIsActive u)))
                  (users s)), s)"
    unfolding db_FindUsers_def using m by simp
  have rest: "db_FindUsers (f\<lparr>fIDs := Some []\<rparr>) s = db_FindUsers (f\<lparr>fIDs := None\<rparr>) s
     \<and> db_FindUsers (f\<lparr>fEmails := Some []\<rparr>) s = db_FindUsers (f\<lparr>fEmails := None\<rparr>) s
     \<and> ((\<forall>u \<in> set (users s). \<not> filter_matches f u) \<longrightarrow> fst (db_FindUsers f s) = Inr [])"
    using ids emails none by (simp add: db_FindUsers_def)
  from first rest show ?thesis by blast
qed

text \<open>
  The cases "ok, combine filters" and "ok, no results" of the test, and the
  active users through empty slices.
\<close>

theorem FindUsers_and_of_nonempty_dimensions_witness:
  "fst (db_FindUsers \<lparr>fIDs = Some [1, 3], fEmails = Some [''alice@example.com''], fIsActive = Some False\<rparr>
          setupUsers)
     = Inr [newUser\<lparr>uID := 1, uCreatedAt := 1609459200, uUpdatedAt := 1609459200\<rparr>]
   \<and> fst (db_FindUsers \<lparr>fIDs = Some [4], fEmails = None, fIsActive = None\<rparr> setupUsers) = Inr []
   \<and> fst (db_FindUsers \<lparr>fIDs = Some [], fEmails = Some [], fIsActive = Some True\<rparr> setupUsers)
     = Inr [newUser\<lparr>uID := 2, uEmail := ''jacob@example.com'', uIsActive := True,
                    uCreatedAt := 1609459201, uUpdatedAt := 1609459201\<rparr>]"
proof -
  note t1 = FindUsers_and_of_nonempty_dimensions
    [of "\<lparr>fIDs = Some [1, 3], fEmails = Some [''alice@example.com''], fIsActive = Some False\<rparr>" setupUsers]
  note t2 = FindUsers_and_of_nonempty_dimensions
    [of "\<lparr>fIDs = Some [4], fEmails = None, fIsActive = None\<rparr>" setupUsers]
  note t3 = FindUsers_and_of_nonempty_dimensions
    [of "\<lparr>fIDs = Some [], fEmails = Some [], fIsActive = Some True\<rparr>" setupUsers]
  have none: "\<forall>u \<in> set (users setupUsers). \<not> filter_matches \<lparr>fIDs = Some [4], fEmails = None, fIsActive = None\<rparr> u"
    by (simp add: setupUsers_users filter_matches_def filter_dimension_def newUser_def)
  have a: "fst (db_FindUsers \<lparr>fIDs = Some [1, 3], fEmails = Some [''alice@example.com''], fIsActive = Some False\<rparr>
          setupUsers) = Inr [newUser\<lparr>uID := 1, uCreatedAt := 1609459200, uUpdatedAt := 1609459200\<rparr>]"
  proof -
    from t1 have "db_FindUsers \<lparr>fIDs = Some [1, 3], fEmails = Some [''alice@example.com''], fIsActive = Some False\<rparr>
          setupUsers = (Inr (filter (\<lambda>u. (uID u = 1 \<or> uID u = 3) \<and> uEmail u = ''alice@example.com'' \<and> \<not> uIsActive u)
             (users setupUsers)), setupUsers)"
      by simp
    then show ?thesis by (simp add: setupUsers_users newUser_def)
  qed
  have b: "fst (db_FindUsers \<lparr>fIDs = Some [4], fEmails = None, fIsActive = None\<rparr> setupUsers) = Inr []"
    using t2 none by blast
  have c: "fst (db_FindUsers \<lparr>fIDs = Some [], fEmails = Some [], fIsActive = Some True\<rparr> setupUsers)
     = Inr [newUser\<lparr>uID := 2, uEmail := ''jacob@example.com'', uIsActive := True,
                    uCreatedAt := 1609459201, uUpdatedAt := 1609459201\<rparr>]"
  proof -
    from t3 have "db_FindUsers \<lparr>fIDs = Some [], fEmails = Some [], fIsActive = Some True\<rparr> setupUsers
       = (Inr (filter (\<lambda>u. uIsActive u) (users setupUsers)), setupUsers)"
      by simp
    then show ?thesis by (simp add: setupUsers_users newUser_def)
  qed
  from a b c show ?thesis by simp
qed

text \<open>
  The tests "fail, non zero ID" of \<open>Test_Tx_CreateUser\<close> and "fail, not found" of
  \<open>Test_Tx_UpdateUser\<close> run under \<open>inTx\<close>: the operation returns its error and
  the \<open>Commit\<close> that follows succeeds.
\<close>

theorem Commit_after_failed_operation_counterexample:
  "fst (db_apply test_now (OpCreateUser (newUser\<lparr>uID := 1\<rparr>)) test_tx) = Some ErrConstraintViolated
   \<and> fst (db_Commit (snd (db_apply test_now (OpCreateUser (newUser\<lparr>uID := 1\<rparr>)) test_tx))) = None
   \<and> fst (db_apply test_now (OpUpdateUser (newUser\<lparr>uID := 2\<rparr>)) test_tx) = Some ErrNotFound
   \<and> fst (db_Commit (snd (db_apply test_now (OpUpdateUser (newUser\<lparr>uID := 2\<rparr>)) test_tx))) = None"
  by (simp add: test_defs db_op_defs)

text \<open>
  Claim C5, amended. A transaction in its failed state stays in it whatever
  operations follow, and every later \<open>Commit\<close> fails with \<open>ErrTxBadState\<close>.
  An \<open>UpdateEmailToken\<close> rejected with \<open>ErrConstraintViolated\<close> (an immutable
  field was changed) puts the transaction into the failed state. A
  transaction is not failed when it begins, and one whose operations all
  succeeded commits successfully.
\<close>

theorem Tx_failed_state:
  "(failed s \<longrightarrow>
      failed (snd (db_run nowFunc ops s)) \<and>
      fst (db_Commit (snd (db_run nowFunc ops s))) = Some ErrTxBadState)
   \<and> (fst (fst (db_UpdateEmailToken t s)) = Some ErrConstraintViolated \<longrightarrow>
        failed (snd (db_UpdateEmailToken t s)))
   \<and> \<not> failed (snd (db_BeginTx nowFunc s))
   \<and> (\<not> failed s \<and> (\<forall>e \<in> set (fst (db_run nowFunc ops s)). e = None) \<longrightarrow>
        fst (db_Commit (snd (db_run nowFunc ops s))) = None)"
proof -
  have a: "failed s \<longrightarrow> failed (snd (db_run nowFunc ops s)) \<and>
      fst (db_Commit (snd (db_run nowFunc ops s))) = Some ErrTxBadState"
    using db_run_failed_mono [of s nowFunc ops] by (simp add: db_Commit_def)
  have b: "fst (fst (db_UpdateEmailToken t s)) = Some ErrConstraintViolated \<longrightarrow>
        failed (snd (db_UpdateEmailToken t s))"
    by (simp add: db_UpdateEmailToken_def split: option.split)
  have d: "\<not> failed (snd (db_BeginTx nowFunc s))"
    by (simp add: db_BeginTx_def)
  have e: "\<not> failed s \<and> (\<forall>e \<in> set (fst (db_run nowFunc ops s)). e = None) \<longrightarrow>
        fst (db_Commit (snd (db_run nowFunc ops s))) = None"
    using db_run_no_error_not_failed [of s nowFunc ops] by (auto simp: db_Commit_def)
  from a b d e show ?thesis by blast
qed

text \<open>
  The test "fail, immutable field Email" (under \<open>inTxBadState\<close>): the update is
  rejected and \<open>Commit\<close> fails, also after a further operation. After
  \<open>setupUsers\<close> alone \<open>Commit\<close> succeeds.
\<close>

theorem Tx_failed_state_witness:
  "fst (db_run test_now immutable_ops test_tx) = [None, None, None, Some ErrConstraintViolated]
   \<and> fst (db_Commit (snd (db_run test_now immutable_ops test_tx))) = Some ErrTxBadState
   \<and> fst (db_Commit (snd (db_run test_now [OpFindUsers \<lparr>fIDs = None, fEmails = None, fIsActive = None\<rparr>]
                              (snd (db_run test_now immutable_ops test_tx))))) = Some ErrTxBadState
   \<and> fst (db_Commit (snd (db_run test_now setupUsers_ops test_tx))) = None"
proof -
  let ?s = "snd (db_run test_now immutable_ops test_tx)"
  have run: "fst (db_run test_now immutable_ops test_tx) = [None, None, None, Some ErrConstraintViolated]"
    and f: "failed ?s"
    by (simp_all add: immutable_ops_def test_defs db_op_defs)
  have ok: "\<not> failed test_tx \<and> (\<forall>e \<in> set (fst (db_run test_now setupUsers_ops test_tx)). e = None)"
    by (simp add: test_defs db_op_defs)
  note t1 = Tx_failed_state [of ?s test_now "[]"]
  note t2 = Tx_failed_state [of ?s test_now "[OpFindUsers \<lparr>fIDs = None, fEmails = None, fIsActive = None\<rparr>]"]
  note t3 = Tx_failed_state [of test_tx test_now setupUsers_ops]
  have a: "fst (db_Commit ?s) = Some ErrTxBadState" using t1 f by simp
  have b: "fst (db_Commit (snd (db_run test_now [OpFindUsers \<lparr>fIDs = None, fEmails = None, fIsActive = None\<rparr>] ?s)))
             = Some ErrTxBadState"
    using t2 f by blast
  have c: "fst (db_Commit (snd (db_run test_now setupUsers_ops test_tx))) = None"
    using t3 ok by blast
  from run a b c show ?thesis by simp
qed

text \<open>No operation changes an immutable field of a stored email token, or removes the token.\<close>

lemma db_apply_keeps_immutable:
  assumes "find (\<lambda>x. tID x = i) (tokens s) = Some old"
  shows "\<exists>new. find (\<lambda>x. tID x = i) (tokens (snd (db_apply nowFunc x s))) = Some new \<and>
               same_immutable new old"
proof (cases x)
  case (OpCreateEmailToken t)
  with assms show ?thesis
    by (simp add: db_CreateEmailToken_def Let_def find_snoc same_immutable_def)
next
  case (OpUpdateEmailToken t)
  show ?thesis
  proof (cases "find (\<lambda>x. tID x = tID t) (tokens s)")
    case None
    with assms OpUpdateEmailToken show ?thesis
      by (simp add: db_UpdateEmailToken_def same_immutable_def)
  next
    case (Some cur)
    have key: "tID (cur\<lparr>tConsumedAt := tConsumedAt t\<rparr>) = tID t"
      using find_Some_key [OF Some] by simp
    show ?thesis
    proof (cases "i = tID t")
      case True
      with assms Some OpUpdateEmailToken key show ?thesis
        by (simp add: db_UpdateEmailToken_found [OF Some] find_map_replace [where key = tID, OF key]
              same_immutable_def)
    next
      case False
      from find_Some_key [OF assms] have "tID old = i" by simp
      with False assms Some OpUpdateEmailToken key show ?thesis
        by (simp add: db_UpdateEmailToken_found [OF Some] find_map_replace [where key = tID, OF key]
              same_immutable_def)
    qed
  qed
qed (use assms in \<open>simp_all add: db_CreateUser_def db_UpdateUser_def db_FindUserByEmail_def
       db_FindUsers_def db_FindEmailTokenByID_def Let_def same_immutable_def split: option.split\<close>)

lemma db_run_keeps_immutable:
  "find (\<lambda>x. tID x = i) (tokens s) = Some old \<Longrightarrow>
   \<exists>new. find (\<lambda>x. tID x = i) (tokens (snd (db_run nowFunc xs s))) = Some new \<and> same_immutable new old"
proof (induction xs arbitrary: s old)
  case Nil
  then show ?case by (simp add: same_immutable_def)
next
  case (Cons x xs)
  from db_apply_keeps_immutable [OF Cons.prems, of nowFunc x]
  obtain mid where m: "find (\<lambda>x. tID x = i) (tokens (snd (db_apply nowFunc x s))) = Some mid"
    and sm: "same_immutable mid old" by blast
  from Cons.IH [OF m] obtain new
    where n: "find (\<lambda>x. tID x = i) (tokens (snd (db_run nowFunc xs (snd (db_apply nowFunc x s))))) = Some new"
    and sn: "same_immutable new mid" by blast
  from sm sn have "same_immutable new old" by (simp add: same_immutable_def)
  with n show ?case by (auto split: prod.split)
qed

text \<open>
  Claim C6. Let an email token be stored under the id of \<open>t\<close>. If \<open>t\<close> differs
  from it in \<open>tokenHash\<close>, \<open>userId\<close>, \<open>email\<close> or \<open>purpose\<close>, \<open>UpdateEmailToken\<close>
  fails with \<open>ErrConstraintViolated\<close> and the stored tokens are unchanged. If
  \<open>t\<close> agrees with it in those four, the update succeeds and the stored
  token takes the \<open>consumedAt\<close> of \<open>t\<close> and nothing else. Whatever sequence
  of operations runs, the token stored under that id keeps its four
  immutable fields.
\<close>

theorem UpdateEmailToken_immutable_fields:
  assumes "find (\<lambda>x. tID x = tID t) (tokens s) = Some old"
  shows "((tTokenHash t \<noteq> tTokenHash old \<or> tUserID t \<noteq> tUserID old \<or>
           tEmail t \<noteq> tEmail old \<or> tPurpose t \<noteq> tPurpose old) \<longrightarrow>
            fst (fst (db_UpdateEmailToken t s)) = Some ErrConstraintViolated \<and>
            tokens (snd (db_UpdateEmailToken t s)) = tokens s)
       \<and> (tTokenHash t = tTokenHash old \<and> tUserID t = tUserID old \<and>
          tEmail t = tEmail old \<and> tPurpose t = tPurpose old \<longrightarrow>
            fst (fst (db_UpdateEmailToken t s)) = None \<and>
            find (\<lambda>x. tID x = tID t) (tokens (snd (db_UpdateEmailToken t s))) =
              Some (old\<lparr>tConsumedAt := tConsumedAt t\<rparr>))
       \<and> (\<exists>new. find (\<lambda>x. tID x = tID t) (tokens (snd (db_run nowFunc ops s))) = Some new \<and>
                 tTokenHash new = tTokenHash old \<and> tUserID new = tUserID old \<and>
                 tEmail new = tEmail old \<and> tPurpose new = tPurpose old)"
proof -
  have key: "tID (old\<lparr>tConsumedAt := tConsumedAt t\<rparr>) = tID t"
    using find_Some_key [OF assms] by simp
  have a: "(tTokenHash t \<noteq> tTokenHash old \<or> tUserID t \<noteq> tUserID old \<or>
           tEmail t \<noteq> tEmail old \<or> tPurpose t \<noteq> tPurpose old) \<longrightarrow>
            fst (fst (db_UpdateEmailToken t s)) = Some ErrConstraintViolated \<and>
            tokens (snd (db_UpdateEmailToken t s)) = tokens s"
    by (simp add: db_UpdateEmailToken_found [OF assms])
  have b: "tTokenHash t = tTokenHash old \<and> tUserID t = tUserID old \<and>
          tEmail t = tEmail old \<and> tPurpose t = tPurpose old \<longrightarrow>
            fst (fst (db_UpdateEmailToken t s)) = None \<and>
            find (\<lambda>x. tID x = tID t) (tokens (snd (db_UpdateEmailToken t s))) =
              Some (old\<lparr>tConsumedAt := tConsumedAt t\<rparr>)"
    using assms find_Some_key [OF assms]
    by (simp add: db_UpdateEmailToken_found [OF assms] find_map_replace [where key = tID, OF key])
  have c: "\<exists>new. find (\<lambda>x. tID x = tID t) (tokens (snd (db_run nowFunc ops s))) = Some new \<and>
                 tTokenHash new = tTokenHash old \<and> tUserID new = tUserID old \<and>
                 tEmail new = tEmail old \<and> tPurpose new = tPurpose old"
    using db_run_keeps_immutable [OF assms, of nowFunc ops] by (auto simp: same_immutable_def)
  from a b c show ?thesis by blast
qed

text \<open>
  The tests "fail, immutable field Purpose" and "ok, update email token" of
  \<open>Test_Tx_UpdateEmailToken\<close>.
\<close>

theorem UpdateEmailToken_immutable_fields_witness:
  "fst (fst (db_UpdateEmailToken
               (newEmailToken\<lparr>tID := 1, tCreatedAt := 1609459201, tPurpose := TokenPurposeLiteral ''other''\<rparr>)
               setupToken)) = Some ErrConstraintViolated
   \<and> fst (fst (db_UpdateEmailToken
               (newEmailToken\<lparr>tID := 1, tCreatedAt := 1609459201, tConsumedAt := Some 1609459209\<rparr>)
               setupToken)) = None
   \<and> tokens (snd (db_UpdateEmailToken
               (newEmailToken\<lparr>tID := 1, tCreatedAt := 1609459201, tConsumedAt := Some 1609459209\<rparr>)
               setupToken))
      = [newEmailToken\<lparr>tID := 1, tCreatedAt := 1609459201, tConsumedAt := Some 1609459209\<rparr>]"
proof -
  let ?old = "newEmailToken\<lparr>tID := 1, tCreatedAt := 1609459201\<rparr>"
  let ?bad = "newEmailToken\<lparr>tID := 1, tCreatedAt := 1609459201, tPurpose := TokenPurposeLiteral ''other''\<rparr>"
  let ?good = "newEmailToken\<lparr>tID := 1, tCreatedAt := 1609459201, tConsumedAt := Some 1609459209\<rparr>"
  have fb: "find (\<lambda>x. tID x = tID ?bad) (tokens setupToken) = Some ?old"
    by (simp add: setupToken_tokens)
  have fg: "find (\<lambda>x. tID x = tID ?good) (tokens setupToken) = Some ?old"
    by (simp add: setupToken_tokens)
  from UpdateEmailToken_immutable_fields [OF fb, of test_now "[]"]
  have a: "fst (fst (db_UpdateEmailToken ?bad setupToken)) = Some ErrConstraintViolated"
    by (simp add: newEmailToken_def)
  from UpdateEmailToken_immutable_fields [OF fg, of test_now "[]"]
  have b: "fst (fst (db_UpdateEmailToken ?good setupToken)) = None"
    by (simp add: newEmailToken_def)
  from db_UpdateEmailToken_found [OF fg]
  have c: "tokens (snd (db_UpdateEmailToken ?good setupToken)) = [?good]"
    by (simp add: setupToken_tokens newEmailToken_def)
  from a b c show ?thesis by simp
qed

text \<open>
  Claim C7. \<open>CreateUser\<close> fails with \<open>ErrConstraintViolated\<close>, changing nothing,
  when the record has a non-zero id or when a stored user (active or not) has
  the same email. \<open>CreateEmailToken\<close> fails with \<open>ErrConstraintViolated\<close>,
  changing nothing, when the record has a non-zero id or when no stored user
  has its \<open>userId\<close>. Otherwise the create succeeds: the record gets a positive
  id that no stored record has and the current time as \<open>createdAt\<close> (and
  \<open>updatedAt\<close> for a user); it is returned in the passed-in record and
  appended to the stored ones.
\<close>

theorem Create_constraints:
  "(uID u \<noteq> 0 \<longrightarrow> db_CreateUser nowFunc u s = ((Some ErrConstraintViolated, u), s))
   \<and> ((\<exists>x \<in> set (users s). uEmail x = uEmail u) \<longrightarrow>
        db_CreateUser nowFunc u s = ((Some ErrConstraintViolated, u), s))
   \<and> (tID t \<noteq> 0 \<longrightarrow> db_CreateEmailToken nowFunc t s = ((Some ErrConstraintViolated, t), s))
   \<and> ((\<forall>x \<in> set (users s). uID x \<noteq> tUserID t) \<longrightarrow>
        db_CreateEmailToken nowFunc t s = ((Some ErrConstraintViolated, t), s))
   \<and> (uID u = 0 \<and> (\<forall>x \<in> set (users s). uEmail x \<noteq> uEmail u) \<longrightarrow>
        (\<exists>i. 0 < i \<and> (\<forall>x \<in> set (users s). uID x \<noteq> i) \<and>
             db_CreateUser nowFunc u s =
               ((None, u\<lparr>uID := i, uCreatedAt := nowFunc (ticks s), uUpdatedAt := nowFunc (ticks s)\<rparr>),
                s\<lparr>users := users s @
                            [u\<lparr>uID := i, uCreatedAt := nowFunc (ticks s), uUpdatedAt := nowFunc (ticks s)\<rparr>],
                  ticks := Suc (ticks s)\<rparr>)))
   \<and> (tID t = 0 \<and> (\<exists>x \<in> set (users s). uID x = tUserID t) \<longrightarrow>
        (\<exists>i. 0 < i \<and> (\<forall>x \<in> set (tokens s). tID x \<noteq> i) \<and>
             db_CreateEmailToken nowFunc t s =
               ((None, t\<lparr>tID := i, tCreatedAt := nowFunc (ticks s)\<rparr>),
                s\<lparr>tokens := tokens s @ [t\<lparr>tID := i, tCreatedAt := nowFunc (ticks s)\<rparr>],
                  ticks := Suc (ticks s)\<rparr>)))"
proof -
  have fu: "0 < next_id (map uID (users s)) \<and> (\<forall>x \<in> set (users s). uID x \<noteq> next_id (map uID (users s)))"
    using next_id_fresh [of "map uID (users s)"] by force
  have ft: "0 < next_id (map tID (tokens s)) \<and> (\<forall>x \<in> set (tokens s). tID x \<noteq> next_id (map tID (tokens s)))"
    using next_id_fresh [of "map tID (tokens s)"] by force
  have a: "uID u \<noteq> 0 \<longrightarrow> db_CreateUser nowFunc u s = ((Some ErrConstraintViolated, u), s)"
    by (simp add: db_CreateUser_def)
  have b: "(\<exists>x \<in> set (users s). uEmail x = uEmail u) \<longrightarrow>
        db_CreateUser nowFunc u s = ((Some ErrConstraintViolated, u), s)"
    by (simp add: db_CreateUser_def)
  have c: "tID t \<noteq> 0 \<longrightarrow> db_CreateEmailToken nowFunc t s = ((Some ErrConstraintViolated, t), s)"
    by (simp add: db_CreateEmailToken_def)
  have d: "(\<forall>x \<in> set (users s). uID x \<noteq> tUserID t) \<longrightarrow>
        db_CreateEmailToken nowFunc t s = ((Some ErrConstraintViolated, t), s)"
    by (simp add: db_CreateEmailToken_def)
  have e: "uID u = 0 \<and> (\<forall>x \<in> set (users s). uEmail x \<noteq> uEmail u) \<longrightarrow>
        (\<exists>i. 0 < i \<and> (\<forall>x \<in> set (users s). uID x \<noteq> i) \<and>
             db_CreateUser nowFunc u s =
               ((None, u\<lparr>uID := i, uCreatedAt := nowFunc (ticks s), uUpdatedAt := nowFunc (ticks s)\<rparr>),
                s\<lparr>users := users s @
                            [u\<lparr>uID := i, uCreatedAt := nowFunc (ticks s), uUpdatedAt := nowFunc (ticks s)\<rparr>],
                  ticks := Suc (ticks s)\<rparr>))"
  proof
    assume h: "uID u = 0 \<and> (\<forall>x \<in> set (users s). uEmail x \<noteq> uEmail u)"
    then have "db_CreateUser nowFunc u s =
               ((None, u\<lparr>uID := next_id (map uID (users s)), uCreatedAt := nowFunc (ticks s),
                         uUpdatedAt := nowFunc (ticks s)\<rparr>),
                s\<lparr>users := users s @
                            [u\<lparr>uID := next_id (map uID (users s)), uCreatedAt := nowFunc (ticks s),
                               uUpdatedAt := nowFunc (ticks s)\<rparr>],
                  ticks := Suc (ticks s)\<rparr>)"
      by (simp add: db_CreateUser_def Let_def)
    with fu show "\<exists>i. 0 < i \<and> (\<forall>x \<in> set (users s). uID x \<noteq> i) \<and>
             db_CreateUser nowFunc u s =
               ((None, u\<lparr>uID := i, uCreatedAt := nowFunc (ticks s), uUpdatedAt := nowFunc (ticks s)\<rparr>),
                s\<lparr>users := users s @
                            [u\<lparr>uID := i, uCreatedAt := nowFunc (ticks s), uUpdatedAt := nowFunc (ticks s)\<rparr>],
                  ticks := Suc (ticks s)\<rparr>)"
      by blast
  qed
  have f: "tID t = 0 \<and> (\<exists>x \<in> set (users s). uID x = tUserID t) \<longrightarrow>
        (\<exists>i. 0 < i \<and> (\<forall>x \<in> set (tokens s). tID x \<noteq> i) \<and>
             db_CreateEmailToken nowFunc t s =
               ((None, t\<lparr>tID := i, tCreatedAt := nowFunc (ticks s)\<rparr>),
                s\<lparr>tokens := tokens s @ [t\<lparr>tID := i, tCreatedAt := nowFunc (ticks s)\<rparr>],
                  ticks := Suc (ticks s)\<rparr>))"
  proof
    assume h: "tID t = 0 \<and> (\<exists>x \<in> set (users s). uID x = tUserID t)"
    then have "db_CreateEmailToken nowFunc t s =
               ((None, t\<lparr>tID := next_id (map tID (tokens s)), tCreatedAt := nowFunc (ticks s)\<rparr>),
                s\<lparr>tokens := tokens s @ [t\<lparr>tID := next_id (map tID (tokens s)), tCreatedAt := nowFunc (ticks s)\<rparr>],
                  ticks := Suc (ticks s)\<rparr>)"
      by (simp add: db_CreateEmailToken_def Let_def)
    with ft show "\<exists>i. 0 < i \<and> (\<forall>x \<in> set (tokens s). tID x \<noteq> i) \<and>
             db_CreateEmailToken nowFunc t s =
               ((None, t\<lparr>tID := i, tCreatedAt := nowFunc (ticks s)\<rparr>),
                s\<lparr>tokens := tokens s @ [t\<lparr>tID := i, tCreatedAt := nowFunc (ticks s)\<rparr>],
                  ticks := Suc (ticks s)\<rparr>)"
      by blast
  qed
  from a b c d e f show ?thesis by blast
qed

text \<open>
  The tests of \<open>Test_Tx_CreateUser\<close> and \<open>Test_Tx_CreateEmailToken\<close>; the
  second user with the same email is active, the first is not.
\<close>

theorem Create_constraints_witness:
  "db_CreateUser test_now newUser test_tx =
     ((None, newUser\<lparr>uID := 1, uCreatedAt := 1609459200, uUpdatedAt := 1609459200\<rparr>), setupUser)
   \<and> fst (fst (db_CreateUser test_now (newUser\<lparr>uID := 1\<rparr>) test_tx)) = Some ErrConstraintViolated
   \<and> fst (fst (db_CreateUser test_now (newUser\<lparr>uIsActive := True\<rparr>) setupUser)) = Some ErrConstraintViolated
   \<and> fst (fst (db_CreateEmailToken test_now (newEmailToken\<lparr>tUserID := 101\<rparr>) setupUser))
       = Some ErrConstraintViolated
   \<and> fst (fst (db_CreateEmailToken test_now (newEmailToken\<lparr>tID := 1\<rparr>) setupUser))
       = Some ErrConstraintViolated
   \<and> fst (db_CreateEmailToken test_now newEmailToken setupUser)
       = (None, newEmailToken\<lparr>tID := 1, tCreatedAt := 1609459201\<rparr>)"
proof -
  note ok_user = Create_constraints [of newUser test_now test_tx newEmailToken]
  note bad_id = Create_constraints [of "newUser\<lparr>uID := 1\<rparr>" test_now test_tx "newEmailToken\<lparr>tID := 1\<rparr>"]
  note dup = Create_constraints [of "newUser\<lparr>uIsActive := True\<rparr>" test_now setupUser "newEmailToken\<lparr>tUserID := 101\<rparr>"]
  note tok_id = Create_constraints [of newUser test_now setupUser "newEmailToken\<lparr>tID := 1\<rparr>"]
  note ok_tok = Create_constraints [of newUser test_now setupUser newEmailToken]
  have a: "db_CreateUser test_now newUser test_tx =
     ((None, newUser\<lparr>uID := 1, uCreatedAt := 1609459200, uUpdatedAt := 1609459200\<rparr>), setupUser)"
    using ok_user by (simp add: setupUser_def test_defs db_op_defs)
  have b: "fst (fst (db_CreateUser test_now (newUser\<lparr>uID := 1\<rparr>) test_tx)) = Some ErrConstraintViolated"
    using bad_id by simp
  have c: "fst (fst (db_CreateUser test_now (newUser\<lparr>uIsActive := True\<rparr>) setupUser)) = Some ErrConstraintViolated"
    using dup by (simp add: setupUser_state newUser_def)
  have d: "fst (fst (db_CreateEmailToken test_now (newEmailToken\<lparr>tUserID := 101\<rparr>) setupUser))
       = Some ErrConstraintViolated"
    using dup by (simp add: setupUser_state newUser_def)
  have e: "fst (fst (db_CreateEmailToken test_now (newEmailToken\<lparr>tID := 1\<rparr>) setupUser))
       = Some ErrConstraintViolated"
    using tok_id by simp
  have f: "fst (db_CreateEmailToken test_now newEmailToken setupUser)
       = (None, newEmailToken\<lparr>tID := 1, tCreatedAt := 1609459201\<rparr>)"
    using ok_tok by (simp add: setupUser_state test_defs db_op_defs)
  from a b c d e f show ?thesis by simp
qed

text \<open>
  Claim C8. \<open>UpdateUser\<close> and \<open>UpdateEmailToken\<close> fail with \<open>ErrNotFound\<close>,
  changing nothing, when no stored record has the id. When \<open>UpdateUser\<close>
  succeeds on the stored user \<open>old\<close>, the passed-in record gets the current
  time as \<open>updatedAt\<close>; the stored user becomes \<open>old\<close> with the \<open>email\<close>,
  \<open>passwordHash\<close> and \<open>isActive\<close> of the update and the current time as
  \<open>updatedAt\<close>, so its \<open>id\<close> and \<open>createdAt\<close> are those of \<open>old\<close>; the users
  under other ids, the order of the users and the email tokens are
  unchanged.
\<close>

theorem Update_not_found_and_frame:
  "((\<forall>x \<in> set (users s). uID x \<noteq> uID u) \<longrightarrow> db_UpdateUser nowFunc u s = ((Some ErrNotFound, u), s))
   \<and> ((\<forall>x \<in> set (tokens s). tID x \<noteq> tID t) \<longrightarrow> db_UpdateEmailToken t s = ((Some ErrNotFound, t), s))
   \<and> (\<forall>old. find (\<lambda>x. uID x = uID u) (users s) = Some old \<and>
             fst (fst (db_UpdateUser nowFunc u s)) = None \<longrightarrow>
        snd (fst (db_UpdateUser nowFunc u s)) = u\<lparr>uUpdatedAt := nowFunc (ticks s)\<rparr> \<and>
        find (\<lambda>x. uID x = uID u) (users (snd (db_UpdateUser nowFunc u s))) =
          Some (old\<lparr>uEmail := uEmail u, uPasswordHash := uPasswordHash u, uIsActive := uIsActive u,
                    uUpdatedAt := nowFunc (ticks s)\<rparr>) \<and>
        (\<forall>i. i \<noteq> uID u \<longrightarrow>
           find (\<lambda>x. uID x = i) (users (snd (db_UpdateUser nowFunc u s))) =
           find (\<lambda>x. uID x = i) (users s)) \<and>
        map uID (users (snd (db_UpdateUser nowFunc u s))) = map uID (users s) \<and>
        tokens (snd (db_UpdateUser nowFunc u s)) = tokens s)"
proof -
  have a: "(\<forall>x \<in> set (users s). uID x \<noteq> uID u) \<longrightarrow> db_UpdateUser nowFunc u s = ((Some ErrNotFound, u), s)"
    using find_None_iff_all [of "\<lambda>x. uID x = uID u" "users s"] by (auto simp: db_UpdateUser_def)
  have b: "(\<forall>x \<in> set (tokens s). tID x \<noteq> tID t) \<longrightarrow> db_UpdateEmailToken t s = ((Some ErrNotFound, t), s)"
    using find_None_iff_all [of "\<lambda>x. tID x = tID t" "tokens s"] by (auto simp: db_UpdateEmailToken_def)
  have c: "snd (fst (db_UpdateUser nowFunc u s)) = u\<lparr>uUpdatedAt := nowFunc (ticks s)\<rparr> \<and>
        find (\<lambda>x. uID x = uID u) (users (snd (db_UpdateUser nowFunc u s))) =
          Some (old\<lparr>uEmail := uEmail u, uPasswordHash := uPasswordHash u, uIsActive := uIsActive u,
                    uUpdatedAt := nowFunc (ticks s)\<rparr>) \<and>
        (\<forall>i. i \<noteq> uID u \<longrightarrow>
           find (\<lambda>x. uID x = i) (users (snd (db_UpdateUser nowFunc u s))) =
           find (\<lambda>x. uID x = i) (users s)) \<and>
        map uID (users (snd (db_UpdateUser nowFunc u s))) = map uID (users s) \<and>
        tokens (snd (db_UpdateUser nowFunc u s)) = tokens s"
    if f: "find (\<lambda>x. uID x = uID u) (users s) = Some old"
      and ok: "fst (fst (db_UpdateUser nowFunc u s)) = None" for old
  proof -
    let ?new = "old\<lparr>uEmail := uEmail u, uPasswordHash := uPasswordHash u, uIsActive := uIsActive u,
                    uUpdatedAt := nowFunc (ticks s)\<rparr>"
    from find_Some_key [OF f] have ko: "uID old = uID u" by simp
    then have key: "uID ?new = uID u" by simp
    from f ok have run: "db_UpdateUser nowFunc u s =
        ((None, u\<lparr>uUpdatedAt := nowFunc (ticks s)\<rparr>),
         s\<lparr>users := map (\<lambda>x. if uID x = uID u then ?new else x) (users s), ticks := Suc (ticks s)\<rparr>)"
      by (simp add: db_UpdateUser_def Let_def split: if_splits)
    have others: "find (\<lambda>x. uID x = i) (map (\<lambda>x. if uID x = uID u then ?new else x) (users s)) =
                  find (\<lambda>x. uID x = i) (users s)" if "i \<noteq> uID u" for i
    proof (cases "find (\<lambda>x. uID x = i) (users s)")
      case None
      then show ?thesis by (simp add: find_map_replace [where key = uID, OF key])
    next
      case (Some y)
      from find_Some_key [OF Some] that have "uID y \<noteq> uID u" by simp
      with Some show ?thesis by (simp add: find_map_replace [where key = uID, OF key])
    qed
    have ids: "map uID (map (\<lambda>x. if uID x = uID u then ?new else x) (users s)) = map uID (users s)"
      using ko by (induction "users s") auto
    have us: "users (snd (db_UpdateUser nowFunc u s)) =
                map (\<lambda>x. if uID x = uID u then ?new else x) (users s)"
      and tk: "tokens (snd (db_UpdateUser nowFunc u s)) = tokens s"
      and ret: "snd (fst (db_UpdateUser nowFunc u s)) = u\<lparr>uUpdatedAt := nowFunc (ticks s)\<rparr>"
      using run by simp_all
    have stored: "find (\<lambda>x. uID x = uID u) (map (\<lambda>x. if uID x = uID u then ?new else x) (users s)) =
                  Some ?new"
      using f ko by (simp add: find_map_replace [where key = uID, OF key])
    show ?thesis
      unfolding us tk ret using stored others ids by blast
  qed
  from a b c show ?thesis by blast
qed

text \<open>
  The tests "fail, not found" of \<open>Test_Tx_UpdateUser\<close> and
  \<open>Test_Tx_UpdateEmailToken\<close>, and "ok, update user".
\<close>

theorem Update_not_found_and_frame_witness:
  "fst (fst (db_UpdateUser test_now (newUser\<lparr>uID := 2\<rparr>) setupUser)) = Some ErrNotFound
   \<and> fst (fst (db_UpdateEmailToken (newEmailToken\<lparr>tID := 2\<rparr>) setupToken)) = Some ErrNotFound
   \<and> fst (db_UpdateUser test_now
          \<lparr>uID = 1, uEmail = ''jacob@example.com'', uPasswordHash = ''hash2'', uIsActive = True,
            uCreatedAt = 1609459200, uUpdatedAt = 1609459200\<rparr> setupUser)
      = (None, \<lparr>uID = 1, uEmail = ''jacob@example.com'', uPasswordHash = ''hash2'', uIsActive = True,
                 uCreatedAt = 1609459200, uUpdatedAt = 1609459201\<rparr>)
   \<and> users (snd (db_UpdateUser test_now
          \<lparr>uID = 1, uEmail = ''jacob@example.com'', uPasswordHash = ''hash2'', uIsActive = True,
            uCreatedAt = 1609459200, uUpdatedAt = 1609459200\<rparr> setupUser))
      = [\<lparr>uID = 1, uEmail = ''jacob@example.com'', uPasswordHash = ''hash2'', uIsActive = True,
           uCreatedAt = 1609459200, uUpdatedAt = 1609459201\<rparr>]"
proof -
  let ?u = "\<lparr>uID = 1, uEmail = ''jacob@example.com'', uPasswordHash = ''hash2'', uIsActive = True,
            uCreatedAt = 1609459200, uUpdatedAt = 1609459200\<rparr>"
  let ?old = "newUser\<lparr>uID := 1, uCreatedAt := 1609459200, uUpdatedAt := 1609459200\<rparr>"
  note nf = Update_not_found_and_frame [of setupUser "newUser\<lparr>uID := 2\<rparr>" test_now newEmailToken]
  note nft = Update_not_found_and_frame [of setupToken newUser test_now "newEmailToken\<lparr>tID := 2\<rparr>"]
  note upd = Update_not_found_and_frame [of setupUser ?u test_now newEmailToken]
  have a: "fst (fst (db_UpdateUser test_now (newUser\<lparr>uID := 2\<rparr>) setupUser)) = Some ErrNotFound"
    using nf by (simp add: setupUser_state)
  have b: "fst (fst (db_UpdateEmailToken (newEmailToken\<lparr>tID := 2\<rparr>) setupToken)) = Some ErrNotFound"
    using nft by (simp add: setupToken_tokens)
  have found: "find (\<lambda>x. uID x = uID ?u) (users setupUser) = Some ?old"
    by (simp add: setupUser_state)
  have ok: "fst (fst (db_UpdateUser test_now ?u setupUser)) = None"
    by (simp add: db_UpdateUser_def setupUser_state Let_def)
  from upd found ok
  have c: "snd (fst (db_UpdateUser test_now ?u setupUser)) = ?u\<lparr>uUpdatedAt := test_now (ticks setupUser)\<rparr>"
    and d: "find (\<lambda>x. uID x = uID ?u) (users (snd (db_UpdateUser test_now ?u setupUser))) =
          Some (?old\<lparr>uEmail := uEmail ?u, uPasswordHash := uPasswordHash ?u, uIsActive := uIsActive ?u,
                    uUpdatedAt := test_now (ticks setupUser)\<rparr>)"
    and e: "map uID (users (snd (db_UpdateUser test_now ?u setupUser))) = map uID (users setupUser)"
    by blast+
  have len: "length (users (snd (db_UpdateUser test_now ?u setupUser))) = 1"
    using e setupUser_state by (metis length_map length_Cons list.size(3) One_nat_def)
  from len obtain y where y: "users (snd (db_UpdateUser test_now ?u setupUser)) = [y]"
    by (cases "users (snd (db_UpdateUser test_now ?u setupUser))") auto
  from d y e setupUser_state have "y = ?old\<lparr>uEmail := uEmail ?u, uPasswordHash := uPasswordHash ?u,
       uIsActive := uIsActive ?u, uUpdatedAt := test_now (ticks setupUser)\<rparr>"
    by (simp split: if_splits)
  with y have f: "users (snd (db_UpdateUser test_now ?u setupUser)) =
      [\<lparr>uID = 1, uEmail = ''jacob@example.com'', uPasswordHash = ''hash2'', uIsActive = True,
           uCreatedAt = 1609459200, uUpdatedAt = 1609459201\<rparr>]"
    by (simp add: setupUser_state newUser_def test_now_def)
  from ok c have g: "fst (db_UpdateUser test_now ?u setupUser)
      = (None, \<lparr>uID = 1, uEmail = ''jacob@example.com'', uPasswordHash = ''hash2'', uIsActive = True,
                 uCreatedAt = 1609459200, uUpdatedAt = 1609459201\<rparr>)"
    by (simp add: prod_eq_iff setupUser_state test_now_def)
  from a b f g show ?thesis by simp
qed

section \<open>Properties of the configuration parser\<close>

lemma confSliceOf_loop_all_parsed:
  "\<forall>elem \<in> set parts. \<exists>x. elemFunc elem = Inr x \<Longrightarrow>
   confSliceOf_loop elemFunc i parts tgt = (None, tgt @ map (\<lambda>elem. projr (elemFunc elem)) parts)"
proof (induction parts arbitrary: i tgt)
  case Nil
  show ?case by simp
next
  case (Cons p ps)
  from Cons.prems obtain x where px: "elemFunc p = Inr x" by auto
  from Cons.prems have rest: "\<forall>elem \<in> set ps. \<exists>x. elemFunc elem = Inr x" by simp
  show ?case using Cons.IH [OF rest] px by simp
qed

text \<open>
  Claim C10. When every comma-separated part of \<open>v\<close> parses, \<open>confSliceOf\<close>
  succeeds exactly when the number of characters of \<open>v\<close> lies in
  \<open>[minLen, maxLen]\<close>; the number of parsed elements plays no role. The parsed
  elements are appended to what the target slice already held. So an input
  of at least \<open>minLen\<close> characters (and at most \<open>maxLen\<close>) passes even when it
  yields fewer than \<open>minLen\<close> elements.
\<close>

theorem confSliceOf_checks_string_length:
  assumes "\<forall>elem \<in> set (strings_Split v CHR '',''). \<exists>x. elemFunc elem = Inr x"
  shows "confSliceOf v tgt elemFunc minLen maxLen =
           (if minLen \<le> int (length v) \<and> int (length v) \<le> maxLen then None
            else Some (SliceLengthNotInRange (int (length v)) minLen maxLen),
            tgt @ map (\<lambda>elem. projr (elemFunc elem)) (strings_Split v CHR '',''))"
  using confSliceOf_loop_all_parsed [OF assms, of 0 tgt]
  by (auto simp: confSliceOf_def)

text \<open>
  A single two-character key against a minimum of 2, as \<open>HTTP_COOKIE_KEYS\<close>
  and \<open>DB_ENCRYPTION_KEYS\<close> call it: the call succeeds and the target holds its
  old element and one new one.
\<close>

theorem confSliceOf_checks_string_length_witness:
  "confSliceOf ''ab'' [''old''] (Inr :: string \<Rightarrow> unit + string) 2 MaxInt64 = (None, [''old'', ''ab''])
   \<and> length (strings_Split ''ab'' CHR '','') = 1"
proof -
  have h: "\<forall>elem \<in> set (strings_Split ''ab'' CHR '',''). \<exists>x. (Inr :: string \<Rightarrow> unit + string) elem = Inr x"
    by simp
  show ?thesis
    using confSliceOf_checks_string_length [OF h, of "[''old'']" 2 MaxInt64]
    by (simp add: MaxInt64_def)
qed

end
